theory Spec2Isabelle
  imports Main "HOL-Library.AList" "HOL-Library.Multiset"
begin

section \<open>JavaScript strings and ObjectIds\<close>

text \<open>
  A JavaScript string is a sequence of UTF-16 code units; \<open>length\<close> counts code units.
  String constants of the source are written \<open>js ''...''\<close>.
\<close>

type_synonym jsstring = "nat list"

definition js :: "string \<Rightarrow> jsstring" where
  "js s = map of_char s"

text \<open>\<open>String.prototype.trim\<close>: strips WhiteSpace and LineTerminator code units at both ends.\<close>

definition isWhiteSpace :: "nat \<Rightarrow> bool" where
  "isWhiteSpace c =
     (c \<in> {9, 10, 11, 12, 13, 32, 160, 5760, 8232, 8233, 8239, 8287, 12288, 65279}
      \<or> (8192 \<le> c \<and> c \<le> 8202))"

definition trim :: "jsstring \<Rightarrow> jsstring" where
  "trim s = rev (dropWhile isWhiteSpace (rev (dropWhile isWhiteSpace s)))"

definition isDigit :: "nat \<Rightarrow> bool" where
  "isDigit c = (48 \<le> c \<and> c \<le> 57)"

definition isUpper :: "nat \<Rightarrow> bool" where
  "isUpper c = (65 \<le> c \<and> c \<le> 90)"

definition isLower :: "nat \<Rightarrow> bool" where
  "isLower c = (97 \<le> c \<and> c \<le> 122)"

text \<open>The regular expression class \<open>\w\<close>, that is \<open>[A-Za-z0-9_]\<close>.\<close>

definition isWordChar :: "nat \<Rightarrow> bool" where
  "isWordChar c = (isUpper c \<or> isLower c \<or> isDigit c \<or> c = 95)"

text \<open>The class \<open>[0-9a-fA-F]\<close>.\<close>

definition isHexChar :: "nat \<Rightarrow> bool" where
  "isHexChar c = (isDigit c \<or> (97 \<le> c \<and> c \<le> 102) \<or> (65 \<le> c \<and> c \<le> 70))"

text \<open>
  \<open>/^[0-9a-fA-F]{24}$/\<close>, the test of auth.js for "userId format (MongoDB ObjectId)". The
  document mapper casts a string to an ObjectId exactly when it has this shape; the
  ObjectId prints in lower case (\<open>toString\<close>).
\<close>

definition isObjectIdString :: "jsstring \<Rightarrow> bool" where
  "isObjectIdString s = (length s = 24 \<and> list_all isHexChar s)"

type_synonym oid = jsstring

definition toLowerHex :: "nat \<Rightarrow> nat" where
  "toLowerHex c = (if isUpper c then c + 32 else c)"

definition castObjectId :: "jsstring \<Rightarrow> oid option" where
  "castObjectId s = (if isObjectIdString s then Some (map toLowerHex s) else None)"

text \<open>Truthiness of an optional string: \<open>undefined\<close> and the empty string are falsy.\<close>

fun truthy :: "jsstring option \<Rightarrow> bool" where
  "truthy None = False"
| "truthy (Some s) = (s \<noteq> [])"

section \<open>Data model\<close>

text \<open>User (models/User.js): the fields the chat path reads.\<close>

record user =
  u_id :: oid
  u_name :: jsstring
  u_avatar :: "jsstring option"
  isActive :: bool
  role :: jsstring

record reaction =
  r_user :: oid
  emoji :: jsstring
  r_createdAt :: nat

record attachment =
  a_type :: "jsstring option"
  a_url :: "jsstring option"
  a_filename :: "jsstring option"
  a_size :: "nat option"

text \<open>Message (messageSchema). \<open>mentions\<close> is declared as a list of ObjectId references.\<close>

record message =
  m_id :: oid
  m_user :: oid
  content :: jsstring
  messageType :: jsstring
  attachments :: "attachment list"
  isEdited :: bool
  editedAt :: "nat option"
  isDeleted :: bool
  deletedAt :: "nat option"
  reactions :: "reaction list"
  replyTo :: "oid option"
  mentions :: "oid list"
  createdAt :: nat
  updatedAt :: nat

text \<open>\<open>enum: ['text', 'image', 'file', 'system']\<close> of \<open>messageType\<close>.\<close>

definition messageType_enum :: "jsstring list" where
  "messageType_enum = [js ''text'', js ''image'', js ''file'', js ''system'']"

text \<open>\<open>enum: ['image', 'file', 'link']\<close> of an attachment's \<open>type\<close>.\<close>

definition attachmentType_enum :: "jsstring list" where
  "attachmentType_enum = [js ''image'', js ''file'', js ''link'']"

section \<open>Server state and emitted events\<close>

type_synonym sid = jsstring

text \<open>
  \<open>connectedUsers\<close> and \<open>userSockets\<close> are JavaScript Maps: association lists in insertion
  order, \<open>set\<close> being \<open>AList.update\<close> and \<open>delete\<close> being \<open>AList.delete\<close>.
  \<open>rooms\<close> is the transport's room membership, \<open>users\<close> and \<open>messages\<close> the two collections.
\<close>

record state =
  users :: "user list"
  messages :: "message list"
  connectedUsers :: "(jsstring \<times> sid) list"
  userSockets :: "(sid \<times> jsstring) list"
  rooms :: "(sid \<times> jsstring) set"

datatype dest =
  ToSocket sid
| ToRoom jsstring
| ToRoomExcept jsstring sid

record user_brief =
  ub_id :: oid
  ub_name :: jsstring
  ub_avatar :: "jsstring option"

record reply_brief =
  rb_id :: oid
  rb_content :: jsstring
  rb_user :: oid
  rb_createdAt :: "nat option"

record message_payload =
  p_id :: oid
  p_content :: jsstring
  p_messageType :: "jsstring option"
  p_attachments :: "attachment list"
  p_isEdited :: "bool option"
  p_editedAt :: "nat option"
  p_user :: user_brief
  p_replyTo :: "reply_brief option"
  p_createdAt :: nat

datatype payload =
  P_error string
| P_message message_payload
| P_sent oid
| P_deleted "jsstring option"
| P_reactions "jsstring option" "reaction list"
| P_presence oid jsstring "jsstring option" nat
| P_online "(jsstring \<times> sid) list"

record emit =
  e_dest :: dest
  e_event :: string
  e_payload :: payload

definition general :: jsstring where
  "general = js ''general''"

section \<open>Persistence collaborator\<close>

text \<open>
  \<open>Model.findById\<close>: the identifier is cast first (a cast error is thrown), then looked up;
  \<open>findById(undefined)\<close> finds nothing. Soft-deleted documents are found like the others.
\<close>

definition User_findById :: "user list \<Rightarrow> jsstring \<Rightarrow> unit + user option" where
  "User_findById us i =
     (case castObjectId i of
        None \<Rightarrow> Inl ()
      | Some k \<Rightarrow> Inr (find (\<lambda>u. u_id u = k) us))"

definition Message_findById :: "message list \<Rightarrow> jsstring option \<Rightarrow> unit + message option" where
  "Message_findById ms i =
     (case i of
        None \<Rightarrow> Inr None
      | Some s \<Rightarrow>
          (case castObjectId s of
             None \<Rightarrow> Inl ()
           | Some k \<Rightarrow> Inr (find (\<lambda>m. m_id m = k) ms)))"

text \<open>Writing a changed document back: the stored document with the same identifier is replaced.\<close>

definition store :: "message \<Rightarrow> message list \<Rightarrow> message list" where
  "store m ms = map (\<lambda>x. if m_id x = m_id m then m else x) ms"

section \<open>Connection Gate (middleware/auth.js verifyToken, socketHandlers.js io.use)\<close>

text \<open>The class \<open>[A-Za-z0-9-_]\<close> of the token format test.\<close>

definition isTokenChar :: "nat \<Rightarrow> bool" where
  "isTokenChar c = (isUpper c \<or> isLower c \<or> isDigit c \<or> c = 45 \<or> c = 95)"

text \<open>\<open>/^[A-Za-z0-9-_]+\.[A-Za-z0-9-_]+\.[A-Za-z0-9-_]*$/\<close>\<close>

definition tokenFormat :: "jsstring \<Rightarrow> bool" where
  "tokenFormat t =
     (let a = takeWhile isTokenChar t; r1 = dropWhile isTokenChar t in
      a \<noteq> [] \<and>
      (case r1 of
         [] \<Rightarrow> False
       | d1 # r \<Rightarrow>
           d1 = 46 \<and>
           (let b = takeWhile isTokenChar r; r2 = dropWhile isTokenChar r in
            b \<noteq> [] \<and>
            (case r2 of
               [] \<Rightarrow> False
             | d2 # r3 \<Rightarrow> d2 = 46 \<and> list_all isTokenChar r3))))"

text \<open>
  The decoded token. \<open>jwt.verify\<close> (signature, expiry, issuer, audience) belongs to the
  token collaborator and is a parameter \<open>jwtv\<close> of the gate: \<open>None\<close> when it throws.
\<close>

record decoded =
  userId :: "jsstring option"

definition verifyToken :: "(jsstring \<Rightarrow> decoded option) \<Rightarrow> jsstring \<Rightarrow> decoded option" where
  "verifyToken jwtv token =
     (if token = [] then None
      else if tokenFormat token then
        (case jwtv token of
           None \<Rightarrow> None
         | Some d \<Rightarrow>
             (case userId d of
                None \<Rightarrow> None
              | Some i \<Rightarrow> if isObjectIdString i then Some d else None))
      else None)"

record handshake =
  auth_token :: "jsstring option"
  authorization :: "jsstring option"

text \<open>\<open>authorization?.split(' ')[1]\<close>\<close>

definition bearer :: "jsstring option \<Rightarrow> jsstring option" where
  "bearer h =
     (case h of
        None \<Rightarrow> None
      | Some s \<Rightarrow>
          (case dropWhile (\<lambda>c. c \<noteq> 32) s of
             [] \<Rightarrow> None
           | _ # r \<Rightarrow> Some (takeWhile (\<lambda>c. c \<noteq> 32) r)))"

definition handshakeToken :: "handshake \<Rightarrow> jsstring option" where
  "handshakeToken hs = (if truthy (auth_token hs) then auth_token hs else bearer (authorization hs))"

text \<open>The \<open>io.use\<close> middleware: \<open>Inl\<close> is the error handed to \<open>next\<close>, \<open>Inr\<close> is \<open>socket.user\<close>.\<close>

definition socketAuth :: "(jsstring \<Rightarrow> decoded option) \<Rightarrow> user list \<Rightarrow> handshake \<Rightarrow> string + user" where
  "socketAuth jwtv us hs =
     (if truthy (handshakeToken hs) then
        (case verifyToken jwtv (the (handshakeToken hs)) of
           None \<Rightarrow> Inl ''Invalid token''
         | Some d \<Rightarrow>
             (case User_findById us (the (userId d)) of
                Inl _ \<Rightarrow> Inl ''Authentication failed''
              | Inr None \<Rightarrow> Inl ''User not found or inactive''
              | Inr (Some u) \<Rightarrow>
                  if isActive u then Inr u else Inl ''User not found or inactive''))
      else Inl ''Authentication token required'')"

section \<open>Session Registry and connection handling (socketHandlers.js)\<close>

text \<open>A live socket: its identifier and the \<open>user\<close> its handlers close over.\<close>

record socket =
  s_id :: sid
  s_user :: user

text \<open>The first statements of the \<open>connection\<close> handler.\<close>

definition onConnection :: "state \<Rightarrow> socket \<Rightarrow> nat \<Rightarrow> state \<times> emit list" where
  "onConnection st sock now =
     (let u = s_user sock;
          cu = AList.update (u_id u) (s_id sock) (connectedUsers st);
          st' = st\<lparr>connectedUsers := cu,
                   userSockets := AList.update (s_id sock) (u_id u) (userSockets st),
                   rooms := insert (s_id sock, general)
                              (insert (s_id sock, js ''user_'' @ u_id u) (rooms st))\<rparr>
      in (st',
          [\<lparr>e_dest = ToRoomExcept general (s_id sock), e_event = ''user_connected'',
            e_payload = P_presence (u_id u) (u_name u) (u_avatar u) now\<rparr>,
           \<lparr>e_dest = ToSocket (s_id sock), e_event = ''online_users'',
            e_payload = P_online cu\<rparr>]))"

text \<open>
  A connection attempt: the middleware runs once; on an error the connection is refused
  and the \<open>connection\<close> handler is never called.
\<close>

definition connect ::
  "(jsstring \<Rightarrow> decoded option) \<Rightarrow> state \<Rightarrow> sid \<Rightarrow> handshake \<Rightarrow> nat \<Rightarrow> (string + socket) \<times> state \<times> emit list" where
  "connect jwtv st i hs now =
     (case socketAuth jwtv (users st) hs of
        Inl e \<Rightarrow> (Inl e, st, [])
      | Inr u \<Rightarrow>
          (let sock = \<lparr>s_id = i, s_user = u\<rparr>; r = onConnection st sock now
           in (Inr sock, fst r, snd r)))"

text \<open>The \<open>disconnect\<close> handler; the transport has left every room of the socket before it runs.\<close>

definition onDisconnect :: "state \<Rightarrow> socket \<Rightarrow> nat \<Rightarrow> state \<times> emit list" where
  "onDisconnect st sock now =
     (let u = s_user sock
      in (st\<lparr>connectedUsers := AList.delete (u_id u) (connectedUsers st),
             userSockets := AList.delete (s_id sock) (userSockets st),
             rooms := {p \<in> rooms st. fst p \<noteq> s_id sock}\<rparr>,
          [\<lparr>e_dest = ToRoomExcept general (s_id sock), e_event = ''user_disconnected'',
            e_payload = P_presence (u_id u) (u_name u) None now\<rparr>]))"

text \<open>\<open>lookup\<close> of the registry: \<open>connectedUsers.get(userId)\<close>.\<close>

definition lookup :: "state \<Rightarrow> jsstring \<Rightarrow> sid option" where
  "lookup st k = map_of (connectedUsers st) k"

section \<open>Message entity (models/Message.js)\<close>

text \<open>
  The loop of the pre-save hook: \<open>/@(\w+)/g\<close> is run from the end of the previous match
  and every capture (the word after the \<open>@\<close>) is pushed.
\<close>

function extractMentions :: "jsstring \<Rightarrow> jsstring list" where
  "extractMentions [] = []"
| "extractMentions (c # cs) =
     (if c = 64 then
        (if takeWhile isWordChar cs = [] then extractMentions cs
         else takeWhile isWordChar cs # extractMentions (dropWhile isWordChar cs))
      else extractMentions cs)"
  by pat_completeness auto
termination
  by (relation "measure length") (auto simp: less_Suc_eq_le length_dropWhile_le)

text \<open>
  \<open>this.mentions = mentions\<close>. Assigning to a path of a document casts the value to the
  type the schema declares, and \<open>mentions\<close> is declared \<open>[ObjectId]\<close>: when one token is
  not an ObjectId the cast of the list fails, the path keeps its value and the cast error
  is recorded on the document for its next validation. The hook runs after the
  validation of \<open>save()\<close>, so the save goes on.
\<close>

definition setMentions :: "jsstring list \<Rightarrow> message \<Rightarrow> message" where
  "setMentions ts m =
     (case those (map castObjectId ts) of
        None \<Rightarrow> m
      | Some ids \<Rightarrow> m\<lparr>mentions := ids\<rparr>)"

text \<open>\<open>messageSchema.pre('save')\<close>; the flag is \<open>this.isModified('content')\<close>.\<close>

definition preSave :: "bool \<Rightarrow> message \<Rightarrow> message" where
  "preSave contentModified m =
     (if contentModified then setMentions (extractMentions (content m)) m else m)"

text \<open>\<open>content\<close>: \<open>required\<close>, \<open>maxlength: 1000\<close>, checked on the trimmed value.\<close>

definition validContent :: "jsstring \<Rightarrow> bool" where
  "validContent c = (c \<noteq> [] \<and> length c \<le> 1000)"

definition validAttachment :: "attachment \<Rightarrow> bool" where
  "validAttachment a =
     (case a_type a of None \<Rightarrow> True | Some t \<Rightarrow> t \<in> set attachmentType_enum)"

definition castable :: "jsstring option \<Rightarrow> bool" where
  "castable r = (case r of None \<Rightarrow> True | Some s \<Rightarrow> isObjectIdString s)"

text \<open>The object handed to \<open>new Message(...)\<close>.\<close>

record message_data =
  d_user :: oid
  d_content :: jsstring
  d_messageType :: jsstring
  d_attachments :: "attachment list"
  d_replyTo :: "jsstring option"

text \<open>
  \<open>new Message(data)\<close>: the document with the schema's defaults, the \<open>trim\<close> setter of
  \<open>content\<close> applied and the reply-target cast; the identifier and the clock come from
  the environment.
\<close>

definition newDocument :: "message_data \<Rightarrow> oid \<Rightarrow> nat \<Rightarrow> message" where
  "newDocument d i now =
     \<lparr>m_id = i, m_user = d_user d, content = trim (d_content d),
      messageType = d_messageType d, attachments = d_attachments d,
      isEdited = False, editedAt = None, isDeleted = False, deletedAt = None,
      reactions = [], replyTo = Option.bind (d_replyTo d) castObjectId,
      mentions = [], createdAt = now, updatedAt = now\<rparr>"

text \<open>The validation \<open>save()\<close> runs on a new document.\<close>

definition validData :: "message_data \<Rightarrow> bool" where
  "validData d =
     (validContent (trim (d_content d))
      \<and> d_messageType d \<in> set messageType_enum
      \<and> list_all validAttachment (d_attachments d)
      \<and> castable (d_replyTo d))"

text \<open>
  \<open>new Message(data)\<close> followed by \<open>save()\<close>: validation, then the pre-save hook, then the
  insert. \<open>Inl\<close> is a thrown validation error.
\<close>

definition Message_create ::
  "message list \<Rightarrow> message_data \<Rightarrow> oid \<Rightarrow> nat \<Rightarrow> unit + message \<times> message list" where
  "Message_create ms d i now =
     (if validData d then
        (let m = preSave True (newDocument d i now) in Inr (m, ms @ [m]))
      else Inl ())"

text \<open>\<open>messageSchema.methods.editMessage\<close>\<close>

definition editMessage :: "message list \<Rightarrow> message \<Rightarrow> jsstring \<Rightarrow> nat \<Rightarrow> unit + message \<times> message list" where
  "editMessage ms m newContent now =
     (if validContent (trim newContent) then
        (let m' = preSave (trim newContent \<noteq> content m)
                    (m\<lparr>content := trim newContent, isEdited := True, editedAt := Some now,
                       updatedAt := now\<rparr>)
         in Inr (m', store m' ms))
      else Inl ())"

text \<open>\<open>messageSchema.methods.softDelete\<close>\<close>

definition softDelete :: "message list \<Rightarrow> message \<Rightarrow> nat \<Rightarrow> message \<times> message list" where
  "softDelete ms m now =
     (let m' = m\<lparr>isDeleted := True, deletedAt := Some now, updatedAt := now\<rparr>
      in (m', store m' ms))"

text \<open>\<open>messageSchema.methods.addReaction\<close>; \<open>emoji\<close> is \<open>required\<close>.\<close>

definition addReaction ::
  "message list \<Rightarrow> message \<Rightarrow> oid \<Rightarrow> jsstring \<Rightarrow> nat \<Rightarrow> unit + message \<times> message list" where
  "addReaction ms m uid e now =
     (let rs = filter (\<lambda>r. r_user r \<noteq> uid) (reactions m)
               @ [\<lparr>r_user = uid, emoji = e, r_createdAt = now\<rparr>]
      in if list_all (\<lambda>r. emoji r \<noteq> []) rs then
           (let m' = m\<lparr>reactions := rs, updatedAt := now\<rparr> in Inr (m', store m' ms))
         else Inl ())"

text \<open>
  \<open>messageSchema.methods.removeReaction\<close>. When the user has no reaction the filtered list
  equals the old one, no path is modified and \<open>save()\<close> writes nothing.
\<close>

definition removeReaction :: "message list \<Rightarrow> message \<Rightarrow> oid \<Rightarrow> nat \<Rightarrow> message \<times> message list" where
  "removeReaction ms m uid now =
     (if filter (\<lambda>r. r_user r \<noteq> uid) (reactions m) = reactions m then (m, ms)
      else
        (let m' = m\<lparr>reactions := filter (\<lambda>r. r_user r \<noteq> uid) (reactions m), updatedAt := now\<rparr>
         in (m', store m' ms)))"

text \<open>
  \<open>sort({ createdAt: -1 })\<close> belongs to the document store. \<open>descending xs ys\<close> says that
  \<open>ys\<close> is an answer the store may give for the documents \<open>xs\<close>: the same documents,
  newest first. Among equal timestamps the store fixes no order, and two queries may get
  different answers; so the sort is a parameter \<open>srt\<close> of every query below.
\<close>

definition descending :: "message list \<Rightarrow> message list \<Rightarrow> bool" where
  "descending xs ys = (mset ys = mset xs \<and> sorted_wrt (\<lambda>a b. createdAt b \<le> createdAt a) ys)"

text \<open>One such answer: equal timestamps stay in collection order.\<close>

definition newestFirst :: "message list \<Rightarrow> message list" where
  "newestFirst ms = sort_key (\<lambda>m. - int (createdAt m)) ms"

text \<open>
  \<open>skip(n).limit(k)\<close> of the document store: a negative skip is an error, a limit of zero
  is no limit, a negative limit asks for one batch of that size.
\<close>

definition skipLimit :: "int \<Rightarrow> int \<Rightarrow> 'a list \<Rightarrow> unit + 'a list" where
  "skipLimit n k xs =
     (if n < 0 then Inl ()
      else if k = 0 then Inr (drop (nat n) xs)
      else Inr (take (nat \<bar>k\<bar>) (drop (nat n) xs)))"

text \<open>
  \<open>populate('user', 'name avatar')\<close>, \<open>populate('replyTo', 'content user')\<close> and
  \<open>populate('mentions', 'name')\<close>: each reference is looked up by identifier in its
  collection, whatever the soft-deleted flag of the document found. The reply-target is
  hydrated with its identifier, content and user only: \<open>createdAt\<close> is not selected.
  References of a list that find no document are dropped.
\<close>

definition populateUser :: "user list \<Rightarrow> oid \<Rightarrow> user_brief option" where
  "populateUser us i =
     map_option (\<lambda>u. \<lparr>ub_id = u_id u, ub_name = u_name u, ub_avatar = u_avatar u\<rparr>)
       (find (\<lambda>u. u_id u = i) us)"

definition populateReply :: "message list \<Rightarrow> oid option \<Rightarrow> reply_brief option" where
  "populateReply ms r =
     (case r of
        None \<Rightarrow> None
      | Some i \<Rightarrow>
          map_option
            (\<lambda>m. \<lparr>rb_id = m_id m, rb_content = content m, rb_user = m_user m,
                  rb_createdAt = None\<rparr>)
            (find (\<lambda>m. m_id m = i) ms))"

definition populateMentions :: "user list \<Rightarrow> oid list \<Rightarrow> (oid \<times> jsstring) list" where
  "populateMentions us ids =
     List.map_filter (\<lambda>i. map_option (\<lambda>u. (u_id u, u_name u)) (find (\<lambda>u. u_id u = i) us)) ids"

text \<open>
  An item of a List or Search result: the stored message with its hydrated references
  (\<open>lean()\<close>: plain objects, no virtuals).
\<close>

record listed =
  l_msg :: message
  l_user :: "user_brief option"
  l_replyTo :: "reply_brief option"
  l_mentions :: "(oid \<times> jsstring) list"

text \<open>The three \<open>populate\<close> calls of \<open>getMessages\<close>.\<close>

definition hydrate :: "user list \<Rightarrow> message list \<Rightarrow> message \<Rightarrow> listed" where
  "hydrate us ms m =
     \<lparr>l_msg = m, l_user = populateUser us (m_user m), l_replyTo = populateReply ms (replyTo m),
      l_mentions = populateMentions us (mentions m)\<rparr>"

text \<open>The one \<open>populate\<close> call of \<open>searchMessages\<close>: the other references stay identifiers.\<close>

definition hydrateUser :: "user list \<Rightarrow> message \<Rightarrow> listed" where
  "hydrateUser us m =
     \<lparr>l_msg = m, l_user = populateUser us (m_user m), l_replyTo = None, l_mentions = []\<rparr>"

text \<open>\<open>messageSchema.statics.getMessages\<close>\<close>

definition getMessages ::
  "(message list \<Rightarrow> message list) \<Rightarrow> user list \<Rightarrow> message list \<Rightarrow> int \<Rightarrow> int
     \<Rightarrow> unit + listed list" where
  "getMessages srt us ms page limit =
     (case skipLimit ((page - 1) * limit) limit (srt (filter (\<lambda>m. isDeleted m = False) ms)) of
        Inl e \<Rightarrow> Inl e
      | Inr xs \<Rightarrow> Inr (map (hydrate us ms) xs))"

text \<open>
  \<open>messageSchema.statics.searchMessages\<close>. The store's regular-expression engine is the
  parameter \<open>rx\<close>: \<open>rx q\<close> is \<open>None\<close> for a pattern it rejects, otherwise the
  case-insensitive matcher of \<open>q\<close>.
\<close>

definition searchMessages ::
  "(jsstring \<Rightarrow> (jsstring \<Rightarrow> bool) option) \<Rightarrow> (message list \<Rightarrow> message list) \<Rightarrow> user list
     \<Rightarrow> message list \<Rightarrow> jsstring \<Rightarrow> jsstring option \<Rightarrow> unit + listed list" where
  "searchMessages rx srt us ms query uid =
     (case rx query of
        None \<Rightarrow> Inl ()
      | Some matches \<Rightarrow>
          (if truthy uid then
             (case castObjectId (the uid) of
                None \<Rightarrow> Inl ()
              | Some k \<Rightarrow>
                  Inr (map (hydrateUser us) (take 20 (srt
                    (filter (\<lambda>m. isDeleted m = False \<and> matches (content m) \<and> m_user m = k) ms)))))
           else
             Inr (map (hydrateUser us) (take 20 (srt
               (filter (\<lambda>m. isDeleted m = False \<and> matches (content m)) ms))))))"

text \<open>The rule both channels apply before an edit or a delete.\<close>

definition forbidden :: "message \<Rightarrow> user \<Rightarrow> bool" where
  "forbidden m u = (m_user m \<noteq> u_id u \<and> role u \<noteq> js ''admin'')"

section \<open>Live channel handlers (socket/socketHandlers.js)\<close>

text \<open>\<open>!content || content.trim().length === 0\<close>\<close>

definition contentMissing :: "jsstring option \<Rightarrow> bool" where
  "contentMissing c = (case c of None \<Rightarrow> True | Some s \<Rightarrow> s = [] \<or> trim s = [])"

text \<open>\<open>socket.emit('error', { message })\<close>\<close>

definition err :: "socket \<Rightarrow> string \<Rightarrow> emit" where
  "err sock msg = \<lparr>e_dest = ToSocket (s_id sock), e_event = ''error'', e_payload = P_error msg\<rparr>"

record send_data =
  sd_content :: "jsstring option"
  sd_messageType :: "jsstring option"
  sd_attachments :: "attachment list option"
  sd_replyTo :: "jsstring option"

text \<open>The object both Send handlers build from the request.\<close>

definition messageData :: "oid \<Rightarrow> send_data \<Rightarrow> message_data" where
  "messageData uid d =
     \<lparr>d_user = uid, d_content = trim (the (sd_content d)),
      d_messageType = (case sd_messageType d of None \<Rightarrow> js ''text'' | Some t \<Rightarrow> t),
      d_attachments = (case sd_attachments d of None \<Rightarrow> [] | Some a \<Rightarrow> a),
      d_replyTo = (if truthy (sd_replyTo d) then sd_replyTo d else None)\<rparr>"

definition newPayload :: "message \<Rightarrow> user_brief \<Rightarrow> reply_brief option \<Rightarrow> message_payload" where
  "newPayload m ub rb =
     \<lparr>p_id = m_id m, p_content = content m, p_messageType = Some (messageType m),
      p_attachments = attachments m, p_isEdited = None, p_editedAt = None,
      p_user = ub, p_replyTo = rb, p_createdAt = createdAt m\<rparr>"

definition editedPayload :: "message \<Rightarrow> user_brief \<Rightarrow> message_payload" where
  "editedPayload m ub =
     \<lparr>p_id = m_id m, p_content = content m, p_messageType = None,
      p_attachments = [], p_isEdited = Some (isEdited m), p_editedAt = editedAt m,
      p_user = ub, p_replyTo = None, p_createdAt = createdAt m\<rparr>"

definition privatePayload :: "message \<Rightarrow> user_brief \<Rightarrow> message_payload" where
  "privatePayload m ub =
     \<lparr>p_id = m_id m, p_content = content m, p_messageType = None,
      p_attachments = [], p_isEdited = None, p_editedAt = None,
      p_user = ub, p_replyTo = None, p_createdAt = createdAt m\<rparr>"

text \<open>
  The virtual \<open>formattedTime\<close> of messageSchema: \<open>this.createdAt.toLocaleTimeString(...)\<close>,
  a TypeError when \<open>createdAt\<close> is undefined. (The formatted text is left out of the
  payloads.)
\<close>

definition formattedTime :: "nat option \<Rightarrow> unit + nat" where
  "formattedTime c = (case c of None \<Rightarrow> Inl () | Some t \<Rightarrow> Inr t)"

text \<open>
  Serialising a payload for the wire (the transport's \<open>emit\<close>, \<open>res.json\<close>). The
  reply-target of the payload is the hydrated Message document, whose \<open>toJSON\<close> evaluates
  the virtuals of the schema (\<open>toJSON: { virtuals: true }\<close>); \<open>Inl\<close> is the thrown error.
\<close>

definition serialise :: "message_payload \<Rightarrow> unit + message_payload" where
  "serialise p =
     (case p_replyTo p of
        None \<Rightarrow> Inr p
      | Some rb \<Rightarrow>
          (case formattedTime (rb_createdAt rb) of
             Inl e \<Rightarrow> Inl e
           | Inr _ \<Rightarrow> Inr p))"

text \<open>\<open>socket.on('send_message')\<close>\<close>

definition send_message :: "state \<Rightarrow> socket \<Rightarrow> send_data \<Rightarrow> oid \<Rightarrow> nat \<Rightarrow> state \<times> emit list" where
  "send_message st sock d i now =
     (if contentMissing (sd_content d) then
        (st, [err sock ''Message content is required''])
      else if length (the (sd_content d)) > 1000 then
        (st, [err sock ''Message content cannot exceed 1000 characters''])
      else
        (case Message_create (messages st) (messageData (u_id (s_user sock)) d) i now of
           Inl _ \<Rightarrow> (st, [err sock ''Failed to send message''])
         | Inr (m, ms') \<Rightarrow>
             (case populateUser (users st) (m_user m) of
                None \<Rightarrow> (st\<lparr>messages := ms'\<rparr>, [err sock ''Failed to send message''])
              | Some ub \<Rightarrow>
                  (case serialise (newPayload m ub (populateReply ms' (replyTo m))) of
                     Inl _ \<Rightarrow> (st\<lparr>messages := ms'\<rparr>, [err sock ''Failed to send message''])
                   | Inr p \<Rightarrow>
                       (st\<lparr>messages := ms'\<rparr>,
                        [\<lparr>e_dest = ToRoom general, e_event = ''new_message'',
                          e_payload = P_message p\<rparr>,
                         \<lparr>e_dest = ToSocket (s_id sock), e_event = ''message_sent'',
                          e_payload = P_sent (m_id m)\<rparr>])))))"

text \<open>\<open>socket.on('edit_message')\<close>\<close>

definition edit_message ::
  "state \<Rightarrow> socket \<Rightarrow> jsstring option \<Rightarrow> jsstring option \<Rightarrow> nat \<Rightarrow> state \<times> emit list" where
  "edit_message st sock messageId c now =
     (if contentMissing c then
        (st, [err sock ''Message content is required''])
      else if length (the c) > 1000 then
        (st, [err sock ''Message content cannot exceed 1000 characters''])
      else
        (case Message_findById (messages st) messageId of
           Inl _ \<Rightarrow> (st, [err sock ''Failed to edit message''])
         | Inr None \<Rightarrow> (st, [err sock ''Message not found''])
         | Inr (Some m) \<Rightarrow>
             if forbidden m (s_user sock) then
               (st, [err sock ''You can only edit your own messages''])
             else
               (case editMessage (messages st) m (trim (the c)) now of
                  Inl _ \<Rightarrow> (st, [err sock ''Failed to edit message''])
                | Inr (m', ms') \<Rightarrow>
                    (case populateUser (users st) (m_user m') of
                       None \<Rightarrow> (st\<lparr>messages := ms'\<rparr>, [err sock ''Failed to edit message''])
                     | Some ub \<Rightarrow>
                         (st\<lparr>messages := ms'\<rparr>,
                          [\<lparr>e_dest = ToRoom general, e_event = ''message_edited'',
                            e_payload = P_message (editedPayload m' ub)\<rparr>])))))"

text \<open>\<open>socket.on('delete_message')\<close>\<close>

definition delete_message :: "state \<Rightarrow> socket \<Rightarrow> jsstring option \<Rightarrow> nat \<Rightarrow> state \<times> emit list" where
  "delete_message st sock messageId now =
     (case Message_findById (messages st) messageId of
        Inl _ \<Rightarrow> (st, [err sock ''Failed to delete message''])
      | Inr None \<Rightarrow> (st, [err sock ''Message not found''])
      | Inr (Some m) \<Rightarrow>
          if forbidden m (s_user sock) then
            (st, [err sock ''You can only delete your own messages''])
          else
            (st\<lparr>messages := snd (softDelete (messages st) m now)\<rparr>,
             [\<lparr>e_dest = ToRoom general, e_event = ''message_deleted'',
               e_payload = P_deleted messageId\<rparr>]))"

text \<open>\<open>socket.on('add_reaction')\<close>\<close>

definition add_reaction ::
  "state \<Rightarrow> socket \<Rightarrow> jsstring option \<Rightarrow> jsstring option \<Rightarrow> nat \<Rightarrow> state \<times> emit list" where
  "add_reaction st sock messageId e now =
     (if truthy e then
        (case Message_findById (messages st) messageId of
           Inl _ \<Rightarrow> (st, [err sock ''Failed to add reaction''])
         | Inr None \<Rightarrow> (st, [err sock ''Message not found''])
         | Inr (Some m) \<Rightarrow>
             (case addReaction (messages st) m (u_id (s_user sock)) (the e) now of
                Inl _ \<Rightarrow> (st, [err sock ''Failed to add reaction''])
              | Inr (m', ms') \<Rightarrow>
                  (st\<lparr>messages := ms'\<rparr>,
                   [\<lparr>e_dest = ToRoom general, e_event = ''reaction_added'',
                     e_payload = P_reactions messageId (reactions m')\<rparr>])))
      else (st, [err sock ''Emoji is required'']))"

text \<open>\<open>socket.on('remove_reaction')\<close>\<close>

definition remove_reaction :: "state \<Rightarrow> socket \<Rightarrow> jsstring option \<Rightarrow> nat \<Rightarrow> state \<times> emit list" where
  "remove_reaction st sock messageId now =
     (case Message_findById (messages st) messageId of
        Inl _ \<Rightarrow> (st, [err sock ''Failed to remove reaction''])
      | Inr None \<Rightarrow> (st, [err sock ''Message not found''])
      | Inr (Some m) \<Rightarrow>
          (let r = removeReaction (messages st) m (u_id (s_user sock)) now
           in (st\<lparr>messages := snd r\<rparr>,
               [\<lparr>e_dest = ToRoom general, e_event = ''reaction_removed'',
                 e_payload = P_reactions messageId (reactions (fst r))\<rparr>])))"

text \<open>\<open>connectedUsers.get(recipientId)\<close>, kept when truthy.\<close>

definition recipientSocket :: "state \<Rightarrow> jsstring option \<Rightarrow> sid option" where
  "recipientSocket st r =
     (case r of
        None \<Rightarrow> None
      | Some k \<Rightarrow> (if truthy (map_of (connectedUsers st) k) then map_of (connectedUsers st) k else None))"

text \<open>
  \<open>socket.on('private_message')\<close>. The \<open>recipient\<close> key handed to \<open>new Message\<close> is not a
  path of the schema and is dropped by the document mapper.
\<close>

definition private_message ::
  "state \<Rightarrow> socket \<Rightarrow> jsstring option \<Rightarrow> jsstring option \<Rightarrow> oid \<Rightarrow> nat \<Rightarrow> state \<times> emit list" where
  "private_message st sock recipientId c i now =
     (if contentMissing c then
        (st, [err sock ''Message content is required''])
      else
        (case Message_create (messages st)
                \<lparr>d_user = u_id (s_user sock), d_content = trim (the c),
                 d_messageType = js ''private'', d_attachments = [], d_replyTo = None\<rparr> i now of
           Inl _ \<Rightarrow> (st, [err sock ''Failed to send private message''])
         | Inr (m, ms') \<Rightarrow>
             (case populateUser (users st) (m_user m) of
                None \<Rightarrow> (st\<lparr>messages := ms'\<rparr>, [err sock ''Failed to send private message''])
              | Some ub \<Rightarrow>
                  (st\<lparr>messages := ms'\<rparr>,
                   (case recipientSocket st recipientId of
                      None \<Rightarrow> []
                    | Some rs \<Rightarrow>
                        [\<lparr>e_dest = ToSocket rs, e_event = ''private_message'',
                          e_payload = P_message (privatePayload m ub)\<rparr>])
                   @ [\<lparr>e_dest = ToSocket (s_id sock), e_event = ''private_message_sent'',
                       e_payload = P_sent (m_id m)\<rparr>]))))"

section \<open>REST mirror (routes/chat.js)\<close>

text \<open>
  The handlers below run after \<open>authenticateToken\<close> has put the user on the request
  (\<open>req.user\<close>); \<open>R_error\<close> carries the \<open>error\<close> and \<open>message\<close> fields of a failure.
\<close>

datatype rest_body =
  R_error string string
| R_message message_payload
| R_text string
| R_reactions string "reaction list"
| R_messages "listed list" int int bool
| R_search "listed list" jsstring

record response =
  status :: nat
  body :: rest_body

definition fail :: "nat \<Rightarrow> string \<Rightarrow> string \<Rightarrow> response" where
  "fail code e msg = \<lparr>status = code, body = R_error e msg\<rparr>"

text \<open>\<open>router.post('/messages')\<close>\<close>

definition rest_post_messages :: "state \<Rightarrow> user \<Rightarrow> send_data \<Rightarrow> oid \<Rightarrow> nat \<Rightarrow> state \<times> response" where
  "rest_post_messages st u d i now =
     (if contentMissing (sd_content d) then
        (st, fail 400 ''Validation error'' ''Message content is required'')
      else if length (the (sd_content d)) > 1000 then
        (st, fail 400 ''Validation error'' ''Message content cannot exceed 1000 characters'')
      else
        (case Message_create (messages st) (messageData (u_id u) d) i now of
           Inl _ \<Rightarrow> (st, fail 500 ''Server error'' ''Failed to send message'')
         | Inr (m, ms') \<Rightarrow>
             (case populateUser (users st) (m_user m) of
                None \<Rightarrow> (st\<lparr>messages := ms'\<rparr>, fail 500 ''Server error'' ''Failed to send message'')
              | Some ub \<Rightarrow>
                  (case serialise (newPayload m ub (populateReply ms' (replyTo m))) of
                     Inl _ \<Rightarrow>
                       (st\<lparr>messages := ms'\<rparr>, fail 500 ''Server error'' ''Failed to send message'')
                   | Inr p \<Rightarrow> (st\<lparr>messages := ms'\<rparr>, \<lparr>status = 201, body = R_message p\<rparr>)))))"

text \<open>\<open>router.put('/messages/:messageId')\<close>\<close>

definition rest_put_message ::
  "state \<Rightarrow> user \<Rightarrow> jsstring \<Rightarrow> jsstring option \<Rightarrow> nat \<Rightarrow> state \<times> response" where
  "rest_put_message st u messageId c now =
     (if contentMissing c then
        (st, fail 400 ''Validation error'' ''Message content is required'')
      else if length (the c) > 1000 then
        (st, fail 400 ''Validation error'' ''Message content cannot exceed 1000 characters'')
      else
        (case Message_findById (messages st) (Some messageId) of
           Inl _ \<Rightarrow> (st, fail 500 ''Server error'' ''Failed to edit message'')
         | Inr None \<Rightarrow>
             (st, fail 404 ''Message not found'' ''The specified message does not exist'')
         | Inr (Some m) \<Rightarrow>
             if forbidden m u then
               (st, fail 403 ''Access denied'' ''You can only edit your own messages'')
             else
               (case editMessage (messages st) m (trim (the c)) now of
                  Inl _ \<Rightarrow> (st, fail 500 ''Server error'' ''Failed to edit message'')
                | Inr (m', ms') \<Rightarrow>
                    (case populateUser (users st) (m_user m') of
                       None \<Rightarrow>
                         (st\<lparr>messages := ms'\<rparr>, fail 500 ''Server error'' ''Failed to edit message'')
                     | Some ub \<Rightarrow>
                         (st\<lparr>messages := ms'\<rparr>,
                          \<lparr>status = 200, body = R_message (editedPayload m' ub)\<rparr>)))))"

text \<open>\<open>router.delete('/messages/:messageId')\<close>\<close>

definition rest_delete_message :: "state \<Rightarrow> user \<Rightarrow> jsstring \<Rightarrow> nat \<Rightarrow> state \<times> response" where
  "rest_delete_message st u messageId now =
     (case Message_findById (messages st) (Some messageId) of
        Inl _ \<Rightarrow> (st, fail 500 ''Server error'' ''Failed to delete message'')
      | Inr None \<Rightarrow>
          (st, fail 404 ''Message not found'' ''The specified message does not exist'')
      | Inr (Some m) \<Rightarrow>
          if forbidden m u then
            (st, fail 403 ''Access denied'' ''You can only delete your own messages'')
          else
            (st\<lparr>messages := snd (softDelete (messages st) m now)\<rparr>,
             \<lparr>status = 200, body = R_text ''Message deleted successfully''\<rparr>))"

text \<open>\<open>router.post('/messages/:messageId/reactions')\<close>\<close>

definition rest_post_reaction ::
  "state \<Rightarrow> user \<Rightarrow> jsstring \<Rightarrow> jsstring option \<Rightarrow> nat \<Rightarrow> state \<times> response" where
  "rest_post_reaction st u messageId e now =
     (if truthy e then
        (case Message_findById (messages st) (Some messageId) of
           Inl _ \<Rightarrow> (st, fail 500 ''Server error'' ''Failed to add reaction'')
         | Inr None \<Rightarrow>
             (st, fail 404 ''Message not found'' ''The specified message does not exist'')
         | Inr (Some m) \<Rightarrow>
             (case addReaction (messages st) m (u_id u) (the e) now of
                Inl _ \<Rightarrow> (st, fail 500 ''Server error'' ''Failed to add reaction'')
              | Inr (m', ms') \<Rightarrow>
                  (st\<lparr>messages := ms'\<rparr>,
                   \<lparr>status = 200,
                    body = R_reactions ''Reaction added successfully'' (reactions m')\<rparr>)))
      else (st, fail 400 ''Validation error'' ''Emoji is required''))"

text \<open>\<open>router.delete('/messages/:messageId/reactions')\<close>\<close>

definition rest_delete_reaction :: "state \<Rightarrow> user \<Rightarrow> jsstring \<Rightarrow> nat \<Rightarrow> state \<times> response" where
  "rest_delete_reaction st u messageId now =
     (case Message_findById (messages st) (Some messageId) of
        Inl _ \<Rightarrow> (st, fail 500 ''Server error'' ''Failed to remove reaction'')
      | Inr None \<Rightarrow>
          (st, fail 404 ''Message not found'' ''The specified message does not exist'')
      | Inr (Some m) \<Rightarrow>
          (let r = removeReaction (messages st) m (u_id u) now
           in (st\<lparr>messages := snd r\<rparr>,
               \<lparr>status = 200,
                body = R_reactions ''Reaction removed successfully'' (reactions (fst r))\<rparr>)))"



text \<open>\<open>router.get('/search')\<close>\<close>

definition rest_get_search ::
  "(jsstring \<Rightarrow> (jsstring \<Rightarrow> bool) option) \<Rightarrow> (message list \<Rightarrow> message list) \<Rightarrow> state
     \<Rightarrow> jsstring option \<Rightarrow> jsstring option \<Rightarrow> response" where
  "rest_get_search rx srt st q uid =
     (if truthy q then
        (case searchMessages rx srt (users st) (messages st) (the q) uid of
           Inl _ \<Rightarrow> fail 500 ''Server error'' ''Failed to search messages''
         | Inr ms \<Rightarrow> \<lparr>status = 200, body = R_search ms (the q)\<rparr>)
      else fail 400 ''Validation error'' ''Search query is required'')"

section \<open>Runs of operations and example data\<close>

text \<open>One add-reaction request, over the live channel or over the REST mirror.\<close>

datatype channel = Live | Rest

definition react :: "socket \<Rightarrow> jsstring \<Rightarrow> state \<Rightarrow> channel \<times> jsstring option \<times> nat \<Rightarrow> state" where
  "react sock messageId st r =
     (case r of
        (Live, e, now) \<Rightarrow> fst (add_reaction st sock (Some messageId) e now)
      | (Rest, e, now) \<Rightarrow> fst (rest_post_reaction st (s_user sock) messageId e now))"

text \<open>A sequence of add-reaction requests of one user on one message, oldest first.\<close>

definition react_all ::
  "socket \<Rightarrow> jsstring \<Rightarrow> state \<Rightarrow> (channel \<times> jsstring option \<times> nat) list \<Rightarrow> state" where
  "react_all sock messageId st rs = foldl (react sock messageId) st rs"

text \<open>The requests of a sequence that carry an emoji (the others are answered "Emoji is required").\<close>

definition accepted ::
  "(channel \<times> jsstring option \<times> nat) list \<Rightarrow> (channel \<times> jsstring option \<times> nat) list" where
  "accepted rs = filter (\<lambda>r. truthy (fst (snd r))) rs"

text \<open>The message after \<open>addReaction\<close> by a user.\<close>

definition reacted :: "message \<Rightarrow> oid \<Rightarrow> jsstring \<Rightarrow> nat \<Rightarrow> message" where
  "reacted m uid e t =
     m\<lparr>reactions := filter (\<lambda>r. r_user r \<noteq> uid) (reactions m)
                       @ [\<lparr>r_user = uid, emoji = e, r_createdAt = t\<rparr>],
       updatedAt := t\<rparr>"

text \<open>The reactions of a user on the stored message with the given identifier.\<close>

definition reactionsOf :: "state \<Rightarrow> jsstring \<Rightarrow> oid \<Rightarrow> reaction list" where
  "reactionsOf st messageId uid =
     (case Message_findById (messages st) (Some messageId) of
        Inr (Some m) \<Rightarrow> filter (\<lambda>r. r_user r = uid) (reactions m)
      | _ \<Rightarrow> [])"

definition ann :: user where
  "ann = \<lparr>u_id = js ''507f1f77bcf86cd799439011'', u_name = js ''Ann'', u_avatar = None,
          isActive = True, role = js ''user''\<rparr>"

definition bob :: user where
  "bob = \<lparr>u_id = js ''507f1f77bcf86cd799439012'', u_name = js ''Bob'', u_avatar = None,
          isActive = True, role = js ''user''\<rparr>"

definition dan :: user where
  "dan = \<lparr>u_id = js ''507f1f77bcf86cd799439013'', u_name = js ''Dan'', u_avatar = None,
          isActive = False, role = js ''user''\<rparr>"

definition hello :: message where
  "hello = \<lparr>m_id = js ''65a000000000000000000001'', m_user = u_id ann, content = js ''hello'',
            messageType = js ''text'', attachments = [], isEdited = False, editedAt = None,
            isDeleted = False, deletedAt = None, reactions = [], replyTo = None,
            mentions = [], createdAt = 100, updatedAt = 100\<rparr>"

definition demo :: state where
  "demo = \<lparr>users = [ann, bob, dan], messages = [hello], connectedUsers = [],
           userSockets = [], rooms = {}\<rparr>"

definition sock_ann :: socket where
  "sock_ann = \<lparr>s_id = js ''sA'', s_user = ann\<rparr>"

definition sock_bob :: socket where
  "sock_bob = \<lparr>s_id = js ''sB'', s_user = bob\<rparr>"

text \<open>A token collaborator that accepts two tokens, one of Ann and one of Dan.\<close>

definition demo_jwt :: "jsstring \<Rightarrow> decoded option" where
  "demo_jwt t =
     (if t = js ''a.b.c'' then Some \<lparr>userId = Some (u_id ann)\<rparr>
      else if t = js ''d.e.f'' then Some \<lparr>userId = Some (u_id dan)\<rparr>
      else None)"

definition hs_ann :: handshake where
  "hs_ann = \<lparr>auth_token = Some (js ''a.b.c''), authorization = None\<rparr>"

definition hs_dan :: handshake where
  "hs_dan = \<lparr>auth_token = None, authorization = Some (js ''Bearer d.e.f'')\<rparr>"



text \<open>Bob's reply to Ann's message, and the store holding both.\<close>

definition reply :: message where
  "reply = \<lparr>m_id = js ''65a000000000000000000003'', m_user = u_id bob, content = js ''hi Ann'',
            messageType = js ''text'', attachments = [], isEdited = False, editedAt = None,
            isDeleted = False, deletedAt = None, reactions = [], replyTo = Some (m_id hello),
            mentions = [], createdAt = 150, updatedAt = 150\<rparr>"

definition thread :: state where
  "thread = \<lparr>users = [ann, bob, dan], messages = [hello, reply], connectedUsers = [],
             userSockets = [], rooms = {}\<rparr>"




text \<open>The items of a returned page, and its messages.\<close>

definition pageOfListed :: "unit + listed list \<Rightarrow> listed list" where
  "pageOfListed r = (case r of Inl _ \<Rightarrow> [] | Inr ys \<Rightarrow> ys)"


section \<open>Basic facts\<close>

lemmas char_defs =
  js_def isDigit_def isUpper_def isLower_def isHexChar_def isWordChar_def isTokenChar_def
  isWhiteSpace_def toLowerHex_def

lemmas gate_defs =
  socketAuth_def handshakeToken_def bearer_def verifyToken_def tokenFormat_def
  isObjectIdString_def User_findById_def castObjectId_def

lemmas demo_defs =
  demo_def ann_def bob_def dan_def hello_def sock_ann_def sock_bob_def demo_jwt_def
  hs_ann_def hs_dan_def

lemma trim_Nil: "trim [] = []"
  by (simp add: trim_def)

lemma length_trim_le: "length (trim s) \<le> length s"
proof -
  have "length (trim s) \<le> length (dropWhile isWhiteSpace s)"
    unfolding trim_def using length_dropWhile_le [of isWhiteSpace "rev (dropWhile isWhiteSpace s)"]
    by simp
  also have "\<dots> \<le> length s" by (rule length_dropWhile_le)
  finally show ?thesis .
qed

lemma dropWhile_hd: "xs \<noteq> [] \<Longrightarrow> \<not> P (hd xs) \<Longrightarrow> dropWhile P xs = xs"
  by (cases xs) auto

lemma trim_idem: "trim (trim s) = trim s"
proof -
  define a where "a = dropWhile isWhiteSpace s"
  define b where "b = dropWhile isWhiteSpace (rev a)"
  have t: "trim s = rev b" by (simp add: trim_def a_def b_def)
  show ?thesis
  proof (cases "b = []")
    case True
    with t have "trim s = []" by simp
    then show ?thesis by (simp add: trim_Nil)
  next
    case False
    then have hb: "\<not> isWhiteSpace (hd b)"
      unfolding b_def by (rule hd_dropWhile)
    from False have an: "a \<noteq> []" by (auto simp: b_def)
    then have ha: "\<not> isWhiteSpace (hd a)"
      unfolding a_def by (rule hd_dropWhile)
    obtain p where p: "rev a = p @ b"
      unfolding b_def by (metis takeWhile_dropWhile_id)
    have "last b = last (rev a)" using p False by simp
    also have "\<dots> = hd a" using an by (simp add: last_rev)
    finally have lb: "\<not> isWhiteSpace (last b)" using ha by simp
    have "hd (rev b) = last b" using False by (simp add: hd_rev)
    then have d1: "dropWhile isWhiteSpace (rev b) = rev b"
      using lb False by (simp add: dropWhile_hd)
    have d2: "dropWhile isWhiteSpace b = b"
      using hb False by (simp add: dropWhile_hd)
    show ?thesis using t d1 d2 by (simp add: trim_def)
  qed
qed

lemma find_id: "find (\<lambda>x. m_id x = k) ms = Some m \<Longrightarrow> m_id m = k"
  by (induction ms) (auto split: if_splits)

lemma find_store:
  assumes "find (\<lambda>x. m_id x = k) ms = Some m" and "m_id m' = k"
  shows "find (\<lambda>x. m_id x = k) (store m' ms) = Some m'"
  using assms by (induction ms) (auto simp: store_def)

lemma map_id_store: "map m_id (store m ms) = map m_id ms"
  by (induction ms) (auto simp: store_def)

lemma demo_auth_ann: "socketAuth demo_jwt (users demo) hs_ann = Inr ann"
  by (simp add: gate_defs demo_defs char_defs)

lemma findById_cast:
  "Message_findById ms (Some i) = Inr (Some m) \<Longrightarrow>
     \<exists>k. castObjectId i = Some k \<and> find (\<lambda>x. m_id x = k) ms = Some m \<and> m_id m = k"
  by (auto simp: Message_findById_def split: option.splits dest: find_id)

lemma findById_store:
  assumes "Message_findById ms (Some i) = Inr (Some m)" and "m_id m' = m_id m"
  shows "Message_findById (store m' ms) (Some i) = Inr (Some m')"
proof -
  from findById_cast [OF assms(1)] obtain k where
    k: "castObjectId i = Some k" "find (\<lambda>x. m_id x = k) ms = Some m" "m_id m = k" by blast
  with assms(2) have "find (\<lambda>x. m_id x = k) (store m' ms) = Some m'"
    by (simp add: find_store)
  with k show ?thesis by (simp add: Message_findById_def)
qed

lemma store_deleted:
  assumes "x \<in> set (store m' ms)" and "m_id x = m_id m'"
  shows "x = m'"
  using assms by (auto simp: store_def split: if_splits)

lemma set_newestFirst: "set (newestFirst ms) = set ms"
  by (simp add: newestFirst_def)

lemma descending_set: "descending xs ys \<Longrightarrow> set ys = set xs"
  by (auto simp: descending_def dest: mset_eq_setD)


lemma skipLimit_subset: "skipLimit n k xs = Inr ys \<Longrightarrow> set ys \<subseteq> set xs"
  by (auto simp: skipLimit_def split: if_splits dest: in_set_takeD in_set_dropD)

lemma getMessages_live:
  assumes "descending (filter (\<lambda>m. isDeleted m = False) ms)
             (srt (filter (\<lambda>m. isDeleted m = False) ms))"
    and "getMessages srt us ms p l = Inr ys" and "y \<in> set ys"
  shows "l_msg y \<in> set ms \<and> isDeleted (l_msg y) = False \<and> y = hydrate us ms (l_msg y)"
proof -
  from assms(2) obtain xs where
    xs: "skipLimit ((p - 1) * l) l (srt (filter (\<lambda>m. isDeleted m = False) ms)) = Inr xs"
      "ys = map (hydrate us ms) xs"
    by (auto simp: getMessages_def split: sum.splits)
  from skipLimit_subset [OF xs(1)] descending_set [OF assms(1)]
  have "set xs \<subseteq> {m \<in> set ms. isDeleted m = False}" by auto
  with xs(2) assms(3) show ?thesis by (auto simp: hydrate_def)
qed

lemma searchMessages_live:
  assumes "\<And>xs. descending xs (srt xs)"
    and "searchMessages rx srt us ms q uid = Inr ys" and "y \<in> set ys"
  shows "l_msg y \<in> set ms \<and> isDeleted (l_msg y) = False \<and> l_replyTo y = None"
proof -
  have s: "set (take 20 (srt xs)) \<subseteq> set xs" for xs
    using descending_set [OF assms(1), of xs] by (auto dest: in_set_takeD)
  from assms(2,3) obtain P x where
    "y = hydrateUser us x" "x \<in> set (take 20 (srt (filter (\<lambda>m. isDeleted m = False \<and> P m) ms)))"
    by (auto simp: searchMessages_def split: option.splits if_splits)
  with s [of "filter (\<lambda>m. isDeleted m = False \<and> P m) ms"] show ?thesis
    by (auto simp: hydrateUser_def)
qed

lemma delete_message_ok:
  assumes "Message_findById (messages st) (Some i) = Inr (Some m)"
    and "\<not> forbidden m (s_user sock)"
  shows "delete_message st sock (Some i) t
           = (st\<lparr>messages := store (m\<lparr>isDeleted := True, deletedAt := Some t, updatedAt := t\<rparr>)
                                (messages st)\<rparr>,
              [\<lparr>e_dest = ToRoom general, e_event = ''message_deleted'',
                e_payload = P_deleted (Some i)\<rparr>])"
  using assms by (simp add: delete_message_def softDelete_def Let_def)

lemma rest_delete_message_ok:
  assumes "Message_findById (messages st) (Some i) = Inr (Some m)"
    and "\<not> forbidden m u"
  shows "rest_delete_message st u i t
           = (st\<lparr>messages := store (m\<lparr>isDeleted := True, deletedAt := Some t, updatedAt := t\<rparr>)
                                (messages st)\<rparr>,
              \<lparr>status = 200, body = R_text ''Message deleted successfully''\<rparr>)"
  using assms by (simp add: rest_delete_message_def softDelete_def Let_def)

lemma hello_id: "castObjectId (m_id hello) = Some (m_id hello)"
  by (simp add: castObjectId_def isObjectIdString_def hello_def char_defs)

lemma demo_find_hello: "Message_findById (messages demo) (Some (m_id hello)) = Inr (Some hello)"
  by (simp add: Message_findById_def hello_id demo_def)

lemma getMessages_hides:
  assumes "isDeleted m'"
    and "descending (filter (\<lambda>m. isDeleted m = False) (store m' ms))
           (srt (filter (\<lambda>m. isDeleted m = False) (store m' ms)))"
    and "getMessages srt us (store m' ms) p l = Inr ys" and "y \<in> set ys"
  shows "m_id (l_msg y) \<noteq> m_id m'"
proof
  assume i: "m_id (l_msg y) = m_id m'"
  from getMessages_live [OF assms(2,3,4)]
  have "l_msg y \<in> set (store m' ms)" "isDeleted (l_msg y) = False" by simp_all
  with store_deleted [OF _ i] assms(1) show False by auto
qed

lemma searchMessages_hides:
  assumes "isDeleted m'" and "\<And>xs. descending xs (srt xs)"
    and "searchMessages rx srt us (store m' ms) q uid = Inr ys" and "y \<in> set ys"
  shows "m_id (l_msg y) \<noteq> m_id m'"
proof
  assume i: "m_id (l_msg y) = m_id m'"
  from searchMessages_live [OF assms(2,3,4)]
  have "l_msg y \<in> set (store m' ms)" "isDeleted (l_msg y) = False" by simp_all
  with store_deleted [OF _ i] assms(1) show False by auto
qed

lemma hydrate_reply:
  assumes "find (\<lambda>x. m_id x = k) ms = Some m" and "replyTo y = Some k"
  shows "l_replyTo (hydrate us ms y)
           = Some \<lparr>rb_id = m_id m, rb_content = content m, rb_user = m_user m, rb_createdAt = None\<rparr>"
  using assms by (simp add: hydrate_def populateReply_def)

lemma addReaction_ok:
  assumes "e \<noteq> []" and "list_all (\<lambda>r. emoji r \<noteq> []) (reactions m)"
  shows "addReaction ms m uid e t = Inr (reacted m uid e t, store (reacted m uid e t) ms)"
proof -
  have "list_all (\<lambda>r. emoji r \<noteq> []) (filter (\<lambda>r. r_user r \<noteq> uid) (reactions m))"
    using assms(2) by (simp add: list_all_iff)
  with assms(1) show ?thesis
    by (simp add: addReaction_def reacted_def Let_def)
qed

lemma react_accepted:
  assumes "Message_findById (messages st) (Some i) = Inr (Some m)"
    and "list_all (\<lambda>r. emoji r \<noteq> []) (reactions m)"
    and "truthy e"
  shows "react sock i st (ch, e, t)
           = st\<lparr>messages := store (reacted m (u_id (s_user sock)) (the e) t) (messages st)\<rparr>"
proof -
  from assms(3) obtain s where e: "e = Some s" "s \<noteq> []" by (cases e) auto
  show ?thesis
    using assms(1) e addReaction_ok [OF e(2) assms(2)]
    by (cases ch) (simp_all add: react_def add_reaction_def rest_post_reaction_def)
qed

lemma react_rejected: "\<not> truthy e \<Longrightarrow> react sock i st (ch, e, t) = st"
  by (cases ch) (simp_all add: react_def add_reaction_def rest_post_reaction_def)

lemma reacted_own:
  "filter (\<lambda>r. r_user r = uid) (reactions (reacted m uid e t))
     = [\<lparr>r_user = uid, emoji = e, r_createdAt = t\<rparr>]"
proof -
  have "filter (\<lambda>r. r_user r = uid) (filter (\<lambda>r. r_user r \<noteq> uid) xs) = []" for xs :: "reaction list"
    by (induction xs) auto
  then show ?thesis by (simp add: reacted_def)
qed

lemma reacted_valid:
  "e \<noteq> [] \<Longrightarrow> list_all (\<lambda>r. emoji r \<noteq> []) (reactions m)
     \<Longrightarrow> list_all (\<lambda>r. emoji r \<noteq> []) (reactions (reacted m uid e t))"
  by (simp add: reacted_def list_all_iff)

lemma react_all_inv:
  assumes "Message_findById (messages st) (Some i) = Inr (Some m)"
    and "list_all (\<lambda>r. emoji r \<noteq> []) (reactions m)"
  shows "\<exists>m'. Message_findById (messages (react_all sock i st rs)) (Some i) = Inr (Some m')
            \<and> list_all (\<lambda>r. emoji r \<noteq> []) (reactions m')
            \<and> (accepted rs \<noteq> [] \<longrightarrow>
                 filter (\<lambda>r. r_user r = u_id (s_user sock)) (reactions m')
                   = [\<lparr>r_user = u_id (s_user sock),
                       emoji = the (fst (snd (last (accepted rs)))),
                       r_createdAt = snd (snd (last (accepted rs)))\<rparr>])"
proof (induction rs rule: rev_induct)
  case Nil
  show ?case using assms by (simp add: react_all_def accepted_def)
next
  case (snoc r rs)
  then obtain m' where
    f: "Message_findById (messages (react_all sock i st rs)) (Some i) = Inr (Some m')"
    and v: "list_all (\<lambda>r. emoji r \<noteq> []) (reactions m')"
    and o: "accepted rs \<noteq> [] \<longrightarrow>
              filter (\<lambda>r. r_user r = u_id (s_user sock)) (reactions m')
                = [\<lparr>r_user = u_id (s_user sock),
                    emoji = the (fst (snd (last (accepted rs)))),
                    r_createdAt = snd (snd (last (accepted rs)))\<rparr>]"
    by blast
  obtain ch e t where r: "r = (ch, e, t)" by (cases r) auto
  have step: "react_all sock i st (rs @ [(ch, e, t)])
                = react sock i (react_all sock i st rs) (ch, e, t)"
    by (simp add: react_all_def)
  show ?case
  proof (cases "truthy e")
    case True
    then have ne: "the e \<noteq> []" by (cases e) auto
    let ?m = "reacted m' (u_id (s_user sock)) (the e) t"
    have "Message_findById (store ?m (messages (react_all sock i st rs))) (Some i) = Inr (Some ?m)"
      by (rule findById_store [OF f]) (simp add: reacted_def)
    then have f': "Message_findById (messages (react_all sock i st (rs @ [(ch, e, t)]))) (Some i)
                     = Inr (Some ?m)"
      by (simp add: step react_accepted [OF f v True])
    have a: "accepted (rs @ [(ch, e, t)]) = accepted rs @ [(ch, e, t)]"
      using True by (simp add: accepted_def)
    show ?thesis
      unfolding r
      using f' reacted_valid [OF ne v, of "u_id (s_user sock)" t]
        reacted_own [of "u_id (s_user sock)" m' "the e" t]
      by (simp add: a)
  next
    case False
    then have s: "react_all sock i st (rs @ [(ch, e, t)]) = react_all sock i st rs"
      by (simp add: step react_rejected)
    have a: "accepted (rs @ [(ch, e, t)]) = accepted rs"
      using False by (simp add: accepted_def)
    show ?thesis unfolding r s a using f v o by blast
  qed
qed

lemma react_all_rejected: "accepted xs = [] \<Longrightarrow> react_all sock i st xs = st"
proof (induction xs rule: rev_induct)
  case Nil
  show ?case by (simp add: react_all_def)
next
  case (snoc x xs)
  obtain ch e t where x: "x = (ch, e, t)" by (cases x) auto
  from snoc.prems have "accepted xs = []" "\<not> truthy e"
    by (auto simp: accepted_def x split: if_splits)
  with snoc.IH show ?case by (simp add: react_all_def x react_rejected)
qed

lemma validContent_trimmed:
  assumes "trim s \<noteq> []" and "length s \<le> 1000"
  shows "validContent (trim (trim s))"
  using assms length_trim_le [of s] by (simp add: validContent_def trim_idem)

lemma preSave_mentions: "\<exists>ms. preSave b m = m\<lparr>mentions := ms\<rparr>"
proof (cases "b \<and> those (map castObjectId (extractMentions (content m))) \<noteq> None")
  case True
  then show ?thesis by (auto simp: preSave_def setMentions_def)
next
  case False
  then have "preSave b m = m" by (auto simp: preSave_def setMentions_def)
  then have "preSave b m = m\<lparr>mentions := mentions m\<rparr>" by simp
  then show ?thesis by blast
qed

lemma preSave_fields:
  "m_id (preSave b m) = m_id m" "m_user (preSave b m) = m_user m"
  "content (preSave b m) = content m" "replyTo (preSave b m) = replyTo m"
  "isDeleted (preSave b m) = isDeleted m" "reactions (preSave b m) = reactions m"
  using preSave_mentions [of b m] by auto

lemma created:
  assumes "validData (messageData uid d)"
    and "m = preSave True (newDocument (messageData uid d) i now)"
  shows "Message_create ms (messageData uid d) i now = Inr (m, ms @ [m])" and "m_user m = uid"
  using assms by (simp_all add: Message_create_def Let_def preSave_fields newDocument_def messageData_def)

lemma send_message_stored:
  assumes "\<not> contentMissing (sd_content d)"
    and "length (the (sd_content d)) \<le> 1000"
    and "validData (messageData (u_id (s_user sock)) d)"
    and "m = preSave True (newDocument (messageData (u_id (s_user sock)) d) i now)"
  shows "fst (send_message st sock d i now) = st\<lparr>messages := messages st @ [m]\<rparr>"
  using assms(1,2) created [OF assms(3,4)]
  by (simp add: send_message_def split: option.splits sum.splits)

lemma rest_post_messages_stored:
  assumes "\<not> contentMissing (sd_content d)"
    and "length (the (sd_content d)) \<le> 1000"
    and "validData (messageData (u_id u) d)"
    and "m = preSave True (newDocument (messageData (u_id u) d) i now)"
  shows "fst (rest_post_messages st u d i now) = st\<lparr>messages := messages st @ [m]\<rparr>"
  using assms(1,2) created [OF assms(3,4)]
  by (simp add: rest_post_messages_def split: option.splits sum.splits)

lemma send_message_ok:
  assumes "\<not> contentMissing (sd_content d)"
    and "length (the (sd_content d)) \<le> 1000"
    and "validData (messageData (u_id (s_user sock)) d)"
    and "populateUser (users st) (u_id (s_user sock)) = Some ub"
    and "m = preSave True (newDocument (messageData (u_id (s_user sock)) d) i now)"
    and "populateReply (messages st @ [m]) (replyTo m) = None"
  shows "send_message st sock d i now
           = (st\<lparr>messages := messages st @ [m]\<rparr>,
              [\<lparr>e_dest = ToRoom general, e_event = ''new_message'',
                e_payload = P_message (newPayload m ub None)\<rparr>,
               \<lparr>e_dest = ToSocket (s_id sock), e_event = ''message_sent'',
                e_payload = P_sent (m_id m)\<rparr>])"
  using assms(1,2,4,6) created [OF assms(3,5)]
  by (simp add: send_message_def serialise_def newPayload_def)

lemma rest_post_messages_ok:
  assumes "\<not> contentMissing (sd_content d)"
    and "length (the (sd_content d)) \<le> 1000"
    and "validData (messageData (u_id u) d)"
    and "populateUser (users st) (u_id u) = Some ub"
    and "m = preSave True (newDocument (messageData (u_id u) d) i now)"
    and "populateReply (messages st @ [m]) (replyTo m) = None"
  shows "rest_post_messages st u d i now
           = (st\<lparr>messages := messages st @ [m]\<rparr>,
              \<lparr>status = 201, body = R_message (newPayload m ub None)\<rparr>)"
  using assms(1,2,4,6) created [OF assms(3,5)]
  by (simp add: rest_post_messages_def serialise_def newPayload_def)

text \<open>
  A reply to a message that exists is stored, and then the serialisation of the hydrated
  reply-target throws: the sender is told that the Send failed.
\<close>

lemma reply_to_existing_reported_failed:
  assumes "\<not> contentMissing (sd_content d)"
    and "length (the (sd_content d)) \<le> 1000"
    and "validData (messageData (u_id (s_user sock)) d)"
    and "populateUser (users st) (u_id (s_user sock)) = Some ub"
    and "m = preSave True (newDocument (messageData (u_id (s_user sock)) d) i now)"
    and "populateReply (messages st @ [m]) (replyTo m) = Some rb"
  shows "send_message st sock d i now
           = (st\<lparr>messages := messages st @ [m]\<rparr>, [err sock ''Failed to send message''])"
    and "rest_post_messages st (s_user sock) d i now
           = (st\<lparr>messages := messages st @ [m]\<rparr>,
              fail 500 ''Server error'' ''Failed to send message'')"
proof -
  from assms(6) have "rb_createdAt rb = None"
    by (auto simp: populateReply_def split: option.splits)
  then show "send_message st sock d i now
           = (st\<lparr>messages := messages st @ [m]\<rparr>, [err sock ''Failed to send message''])"
    and "rest_post_messages st (s_user sock) d i now
           = (st\<lparr>messages := messages st @ [m]\<rparr>,
              fail 500 ''Server error'' ''Failed to send message'')"
    using assms(1,2,4,6) created [OF assms(3,5)]
    by (simp_all add: send_message_def rest_post_messages_def serialise_def newPayload_def
          formattedTime_def)
qed

lemma demo_populate_ann:
  "populateUser (users demo) (u_id ann)
     = Some \<lparr>ub_id = u_id ann, ub_name = js ''Ann'', ub_avatar = None\<rparr>"
  by (simp add: populateUser_def demo_def) (simp add: ann_def)

lemma text_is_kind: "js ''text'' \<in> set messageType_enum"
  by (simp add: messageType_enum_def)

lemma private_not_kind: "js ''private'' \<notin> set messageType_enum"
  by (simp add: messageType_enum_def js_def)

lemma private_message_fails:
  "private_message st sock r c i now
     = (st, [err sock (if contentMissing c then ''Message content is required''
                       else ''Failed to send private message'')])"
  using private_not_kind
  by (simp add: private_message_def Message_create_def validData_def)

lemma mentions_bob: "extractMentions (js ''hi @bob'') = [js ''bob'']"
  by (simp add: char_defs)

lemma bob_not_oid: "castObjectId (js ''bob'') = None"
  by (simp add: castObjectId_def isObjectIdString_def js_def)






section \<open>Session Registry\<close>

text \<open>
  Claim C10. A disconnect removes the registry entry of the connection's user, keyed by the
  user and not by the connection handle: when a user is bound to connection \<open>c1\<close> and then
  to connection \<open>c2\<close> (the second bind overwrites the first), the disconnect of the stale
  connection \<open>c1\<close> removes the user's entry altogether. Afterwards \<open>lookup\<close> of the user
  returns nothing, although \<open>c2\<close> is still connected: it is still recorded in
  \<open>userSockets\<close> and still a member of the room "general".
\<close>

theorem stale_disconnect_unbinds_user:
  assumes "c1 \<noteq> c2"
    and "socketAuth jwtv (users st) hs1 = Inr u"
    and "socketAuth jwtv (users st) hs2 = Inr u"
  shows "(let st1 = fst (snd (connect jwtv st c1 hs1 t1));
              st2 = fst (snd (connect jwtv st1 c2 hs2 t2));
              st3 = fst (onDisconnect st2 \<lparr>s_id = c1, s_user = u\<rparr> t3)
          in fst (connect jwtv st c1 hs1 t1) = Inr \<lparr>s_id = c1, s_user = u\<rparr>
           \<and> fst (connect jwtv st1 c2 hs2 t2) = Inr \<lparr>s_id = c2, s_user = u\<rparr>
           \<and> lookup st1 (u_id u) = Some c1
           \<and> lookup st2 (u_id u) = Some c2
           \<and> lookup st3 (u_id u) = None
           \<and> map_of (userSockets st3) c2 = Some (u_id u)
           \<and> (c2, general) \<in> rooms st3)"
  using assms
  by (simp add: connect_def onConnection_def onDisconnect_def lookup_def Let_def
        update_conv' delete_conv')

theorem stale_disconnect_unbinds_user_witness:
  "(let st1 = fst (snd (connect demo_jwt demo (js ''c1'') hs_ann 1));
        st2 = fst (snd (connect demo_jwt st1 (js ''c2'') hs_ann 2));
        st3 = fst (onDisconnect st2 \<lparr>s_id = js ''c1'', s_user = ann\<rparr> 3)
    in js ''c1'' \<noteq> js ''c2''
     \<and> socketAuth demo_jwt (users demo) hs_ann = Inr ann
     \<and> lookup st2 (u_id ann) = Some (js ''c2'')
     \<and> lookup st3 (u_id ann) = None
     \<and> map_of (userSockets st3) (js ''c2'') = Some (u_id ann)
     \<and> (js ''c2'', general) \<in> rooms st3)"
proof -
  have ne: "js ''c1'' \<noteq> js ''c2''" by (simp add: js_def)
  show ?thesis
    using stale_disconnect_unbinds_user [OF ne demo_auth_ann demo_auth_ann, of 1 2 3]
      ne demo_auth_ann
    by (simp add: Let_def)
qed

section \<open>Connection Gate\<close>

text \<open>
  Claim C2. A connection attempt that presents a credential whose embedded subject resolves
  to a missing user, or to a user whose active flag is false, is refused: the
  \<open>connection\<close> handler does not run, so the state is left as it was (no entry in
  \<open>connectedUsers\<close> or \<open>userSockets\<close>, no room joined) and nothing is emitted (no presence
  broadcast). When the credential passes \<open>verifyToken\<close> the error is "User not found or
  inactive".
\<close>

theorem connect_refuses_missing_or_inactive:
  assumes "handshakeToken hs = Some token"
    and "jwtv token = Some d"
    and "userId d = Some i"
    and "case User_findById (users st) i of Inr (Some u) \<Rightarrow> \<not> isActive u | _ \<Rightarrow> True"
  shows "(\<exists>e. connect jwtv st c hs now = (Inl e, st, []))
       \<and> (verifyToken jwtv token = Some d \<longrightarrow>
            connect jwtv st c hs now = (Inl ''User not found or inactive'', st, []))"
  using assms
  by (auto simp add: connect_def socketAuth_def verifyToken_def User_findById_def castObjectId_def
        split: sum.splits option.splits if_splits)

theorem connect_refuses_missing_or_inactive_witness:
  "handshakeToken hs_dan = Some (js ''d.e.f'')
   \<and> demo_jwt (js ''d.e.f'') = Some \<lparr>userId = Some (u_id dan)\<rparr>
   \<and> User_findById (users demo) (u_id dan) = Inr (Some dan)
   \<and> \<not> isActive dan
   \<and> verifyToken demo_jwt (js ''d.e.f'') = Some \<lparr>userId = Some (u_id dan)\<rparr>
   \<and> connect demo_jwt demo (js ''c9'') hs_dan 7 = (Inl ''User not found or inactive'', demo, [])"
proof -
  have h1: "handshakeToken hs_dan = Some (js ''d.e.f'')"
    by (simp add: gate_defs demo_defs char_defs)
  have h2: "demo_jwt (js ''d.e.f'') = Some \<lparr>userId = Some (u_id dan)\<rparr>"
    by (simp add: demo_defs char_defs)
  have h3: "userId \<lparr>userId = Some (u_id dan)\<rparr> = Some (u_id dan)" by simp
  have h4: "User_findById (users demo) (u_id dan) = Inr (Some dan)"
    by (simp add: gate_defs demo_defs char_defs)
  have h5: "\<not> isActive dan" by (simp add: dan_def)
  have h6: "case User_findById (users demo) (u_id dan) of
              Inr (Some u) \<Rightarrow> \<not> isActive u | _ \<Rightarrow> True"
    using h4 h5 by simp
  have h7: "verifyToken demo_jwt (js ''d.e.f'') = Some \<lparr>userId = Some (u_id dan)\<rparr>"
    by (simp add: gate_defs demo_defs char_defs)
  show ?thesis
    using connect_refuses_missing_or_inactive
            [where jwtv = demo_jwt and hs = hs_dan and token = "js ''d.e.f''"
               and d = "\<lparr>userId = Some (u_id dan)\<rparr>" and i = "u_id dan" and st = demo
               and c = "js ''c9''" and now = 7]
          h1 h2 h3 h4 h5 h6 h7
    by simp
qed

section \<open>Authorization of edit and delete\<close>

text \<open>
  Claim C1, as the code has it. Let \<open>m\<close> be a stored message and \<open>u\<close> an authenticated
  user who is not its owner and whose role is "user". On both channels a soft-delete by
  \<open>u\<close> fails with the authorization error, and an edit by \<open>u\<close> fails with the
  authorization error whenever the new content passes the content checks; the content
  checks run before the lookup, so an edit with missing, blank or over-long content fails
  with the validation error instead. In every case the state, and so \<open>m\<close> (content,
  edited flag, soft-deleted flag, reactions), is left as it was.
\<close>

theorem non_owner_edit_delete_rejected:
  assumes "Message_findById (messages st) (Some messageId) = Inr (Some m)"
    and "m_user m \<noteq> u_id (s_user sock)"
    and "role (s_user sock) = js ''user''"
  shows "delete_message st sock (Some messageId) now
           = (st, [err sock ''You can only delete your own messages''])
       \<and> rest_delete_message st (s_user sock) messageId now
           = (st, fail 403 ''Access denied'' ''You can only delete your own messages'')
       \<and> edit_message st sock (Some messageId) c now
           = (st, [err sock
                (if contentMissing c then ''Message content is required''
                 else if length (the c) > 1000 then ''Message content cannot exceed 1000 characters''
                 else ''You can only edit your own messages'')])
       \<and> rest_put_message st (s_user sock) messageId c now
           = (st,
              if contentMissing c then fail 400 ''Validation error'' ''Message content is required''
              else if length (the c) > 1000 then
                fail 400 ''Validation error'' ''Message content cannot exceed 1000 characters''
              else fail 403 ''Access denied'' ''You can only edit your own messages'')"
proof -
  have "js ''user'' \<noteq> js ''admin''" by (simp add: js_def)
  with assms have f: "forbidden m (s_user sock)" by (simp add: forbidden_def)
  show ?thesis
    using assms(1) f
    by (simp add: delete_message_def rest_delete_message_def edit_message_def rest_put_message_def)
qed

theorem non_owner_edit_delete_rejected_witness:
  "Message_findById (messages demo) (Some (m_id hello)) = Inr (Some hello)
   \<and> m_user hello \<noteq> u_id (s_user sock_bob)
   \<and> role (s_user sock_bob) = js ''user''
   \<and> delete_message demo sock_bob (Some (m_id hello)) 200
        = (demo, [err sock_bob ''You can only delete your own messages''])
   \<and> rest_delete_message demo bob (m_id hello) 200
        = (demo, fail 403 ''Access denied'' ''You can only delete your own messages'')
   \<and> edit_message demo sock_bob (Some (m_id hello)) (Some (js ''bye'')) 200
        = (demo, [err sock_bob ''You can only edit your own messages''])
   \<and> rest_put_message demo bob (m_id hello) (Some (js ''bye'')) 200
        = (demo, fail 403 ''Access denied'' ''You can only edit your own messages'')"
proof -
  have h2: "m_user hello \<noteq> u_id (s_user sock_bob)"
    by (simp add: demo_defs js_def)
  have h3: "role (s_user sock_bob) = js ''user''"
    by (simp add: demo_defs)
  have h4: "\<not> contentMissing (Some (js ''bye''))"
    by (simp add: contentMissing_def trim_def char_defs)
  have h5: "s_user sock_bob = bob" by (simp add: sock_bob_def)
  show ?thesis
    using non_owner_edit_delete_rejected [OF demo_find_hello h2 h3, of 200 "Some (js ''bye'')"]
      demo_find_hello h2 h3 h4 h5
    by (simp add: js_def)
qed

text \<open>
  The claim as it is written fails for an edit: Bob, who has role "user" and does not own
  Ann's message, edits it with blank content and gets the validation error for the
  content, not the authorization error.
\<close>

theorem non_owner_edit_counterexample:
  "Message_findById (messages demo) (Some (m_id hello)) = Inr (Some hello)
   \<and> m_user hello \<noteq> u_id bob
   \<and> role bob = js ''user''
   \<and> edit_message demo sock_bob (Some (m_id hello)) (Some (js '' '')) 200
        = (demo, [err sock_bob ''Message content is required''])
   \<and> edit_message demo sock_bob (Some (m_id hello)) (Some (js '' '')) 200
        \<noteq> (demo, [err sock_bob ''You can only edit your own messages''])
   \<and> rest_put_message demo bob (m_id hello) (Some (js '' '')) 200
        = (demo, fail 400 ''Validation error'' ''Message content is required'')"
proof -
  have h2: "m_user hello \<noteq> u_id bob"
    by (simp add: demo_defs js_def)
  have h3: "role bob = js ''user''"
    by (simp add: demo_defs)
  have h4: "contentMissing (Some (js '' ''))"
    by (simp add: contentMissing_def trim_def char_defs)
  show ?thesis
    using demo_find_hello h2 h3 h4
    by (simp add: edit_message_def rest_put_message_def err_def)
qed

section \<open>Content validation\<close>

text \<open>
  Claim C4. For every content string that is empty after trimming or longer than 1000
  characters, Send and Edit fail with a validation error on both channels: the state is
  returned as it was (no message is created, and for Edit the message keeps its content
  and edited flag), the live channel emits only the \<open>error\<close> event to the calling socket
  and nothing to the room, and the REST mirror answers 400.
\<close>

theorem invalid_content_rejected:
  assumes "trim s = [] \<or> length s > 1000"
  shows "send_message st sock (d\<lparr>sd_content := Some s\<rparr>) i now
           = (st, [err sock (if trim s = [] then ''Message content is required''
                             else ''Message content cannot exceed 1000 characters'')])
       \<and> rest_post_messages st u (d\<lparr>sd_content := Some s\<rparr>) i now
           = (st, fail 400 ''Validation error''
                    (if trim s = [] then ''Message content is required''
                     else ''Message content cannot exceed 1000 characters''))
       \<and> edit_message st sock messageId (Some s) now
           = (st, [err sock (if trim s = [] then ''Message content is required''
                             else ''Message content cannot exceed 1000 characters'')])
       \<and> rest_put_message st u mid (Some s) now
           = (st, fail 400 ''Validation error''
                    (if trim s = [] then ''Message content is required''
                     else ''Message content cannot exceed 1000 characters''))"
proof -
  have m: "contentMissing (Some s) = (trim s = [])"
    by (auto simp: contentMissing_def trim_Nil)
  show ?thesis
    using assms
    by (auto simp add: m send_message_def rest_post_messages_def edit_message_def
          rest_put_message_def)
qed

theorem invalid_content_rejected_witness:
  "trim (js ''  '') = []
   \<and> send_message demo sock_ann
        \<lparr>sd_content = Some (js ''  ''), sd_messageType = None, sd_attachments = None,
         sd_replyTo = None\<rparr> (js ''65a000000000000000000002'') 200
        = (demo, [err sock_ann ''Message content is required''])
   \<and> rest_post_messages demo ann
        \<lparr>sd_content = Some (js ''  ''), sd_messageType = None, sd_attachments = None,
         sd_replyTo = None\<rparr> (js ''65a000000000000000000002'') 200
        = (demo, fail 400 ''Validation error'' ''Message content is required'')
   \<and> edit_message demo sock_ann (Some (m_id hello)) (Some (js ''  '')) 200
        = (demo, [err sock_ann ''Message content is required''])
   \<and> rest_put_message demo ann (m_id hello) (Some (js ''  '')) 200
        = (demo, fail 400 ''Validation error'' ''Message content is required'')"
proof -
  have t: "trim (js ''  '') = []"
    by (simp add: trim_def char_defs)
  then have h: "trim (js ''  '') = [] \<or> length (js ''  '') > 1000" by simp
  show ?thesis
    using invalid_content_rejected [OF h, of demo sock_ann
            "\<lparr>sd_content = None, sd_messageType = None, sd_attachments = None,
              sd_replyTo = None\<rparr>" "js ''65a000000000000000000002''" 200 ann
            "Some (m_id hello)" "m_id hello"] t
    by simp
qed

section \<open>Reactions\<close>

text \<open>
  Claim C6, as the code has it. Let \<open>m\<close> be a stored message (so its reactions passed the
  schema's validation) and let user \<open>u\<close> send any sequence of add-reaction requests for
  \<open>m\<close>, over either channel. A request with a missing or empty emoji is answered "Emoji is
  required" and changes nothing. If at least one request carries a non-empty emoji, then
  afterwards the reaction list of \<open>m\<close> has exactly one entry whose reacting user is \<open>u\<close>,
  and it bears the emoji (and the time) of the latest request that carried one: adding
  replaces rather than appends.
\<close>

theorem reaction_replaced_by_latest:
  assumes "Message_findById (messages st) (Some i) = Inr (Some m)"
    and "list_all (\<lambda>r. emoji r \<noteq> []) (reactions m)"
  shows "(if accepted rs = [] then react_all sock i st rs = st
          else reactionsOf (react_all sock i st rs) i (u_id (s_user sock))
                 = [\<lparr>r_user = u_id (s_user sock),
                     emoji = the (fst (snd (last (accepted rs)))),
                     r_createdAt = snd (snd (last (accepted rs)))\<rparr>])"
proof (cases "accepted rs = []")
  case True
  then show ?thesis by (simp add: react_all_rejected)
next
  case False
  with react_all_inv [OF assms, of sock rs] show ?thesis
    by (auto simp: reactionsOf_def)
qed

theorem reaction_replaced_by_latest_witness:
  "Message_findById (messages demo) (Some (m_id hello)) = Inr (Some hello)
   \<and> list_all (\<lambda>r. emoji r \<noteq> []) (reactions hello)
   \<and> reactionsOf
        (react_all sock_bob (m_id hello) demo
           [(Live, Some [55357, 56397], 200), (Rest, Some (js ''ok''), 300), (Live, Some [], 400)])
        (m_id hello) (u_id bob)
       = [\<lparr>r_user = u_id bob, emoji = js ''ok'', r_createdAt = 300\<rparr>]"
proof -
  have v: "list_all (\<lambda>r. emoji r \<noteq> []) (reactions hello)"
    by (simp add: hello_def)
  have a: "accepted [(Live, Some [55357, 56397], 200), (Rest, Some (js ''ok''), 300), (Live, Some [], 400)]
             = [(Live, Some [55357, 56397], 200), (Rest, Some (js ''ok''), 300)]"
    by (simp add: accepted_def js_def)
  show ?thesis
    using reaction_replaced_by_latest [OF demo_find_hello v, of
            "[(Live, Some [55357, 56397], 200), (Rest, Some (js ''ok''), 300), (Live, Some [], 400)]"
            sock_bob]
          demo_find_hello v
    by (simp add: a sock_bob_def)
qed

text \<open>
  The claim as it is written, for arbitrary emoji strings, fails for the empty string: Bob's
  add-reaction with an empty emoji is refused on both channels and the message has no
  reaction of Bob afterwards.
\<close>

theorem empty_emoji_counterexample:
  "add_reaction demo sock_bob (Some (m_id hello)) (Some []) 200
     = (demo, [err sock_bob ''Emoji is required''])
   \<and> rest_post_reaction demo bob (m_id hello) (Some []) 200
     = (demo, fail 400 ''Validation error'' ''Emoji is required'')
   \<and> reactionsOf (react_all sock_bob (m_id hello) demo [(Live, Some [], 200)])
        (m_id hello) (u_id bob) = []"
proof -
  have r: "react_all sock_bob (m_id hello) demo [(Live, Some [], 200)] = demo"
    by (simp add: react_all_def react_rejected)
  have e: "reactionsOf demo (m_id hello) (u_id bob) = []"
    by (simp add: reactionsOf_def demo_find_hello) (simp add: hello_def)
  show ?thesis
    unfolding r e by (simp add: add_reaction_def rest_post_reaction_def)
qed

section \<open>Mentions\<close>

text \<open>
  Claim C9 at the input where the code departs from it. Ann sends "hi @bob", on either
  channel. The pre-save hook extracts the token "bob" and assigns the token list to
  \<open>mentions\<close>, which the schema declares as a list of ObjectId references: "bob" is not an
  ObjectId, the assignment is refused by the cast, and the message is persisted and
  broadcast with an empty mention list.
\<close>

theorem mention_tokens_not_stored:
  "extractMentions (js ''hi @bob'') = [js ''bob'']
   \<and> map content (messages (fst (send_message demo sock_ann
        \<lparr>sd_content = Some (js ''hi @bob''), sd_messageType = None, sd_attachments = None,
         sd_replyTo = None\<rparr> (js ''65a000000000000000000002'') 200)))
       = [js ''hello'', js ''hi @bob'']
   \<and> map mentions (messages (fst (send_message demo sock_ann
        \<lparr>sd_content = Some (js ''hi @bob''), sd_messageType = None, sd_attachments = None,
         sd_replyTo = None\<rparr> (js ''65a000000000000000000002'') 200)))
       = [[], []]
   \<and> map e_event (snd (send_message demo sock_ann
        \<lparr>sd_content = Some (js ''hi @bob''), sd_messageType = None, sd_attachments = None,
         sd_replyTo = None\<rparr> (js ''65a000000000000000000002'') 200))
       = [''new_message'', ''message_sent'']
   \<and> map mentions (messages (fst (rest_post_messages demo ann
        \<lparr>sd_content = Some (js ''hi @bob''), sd_messageType = None, sd_attachments = None,
         sd_replyTo = None\<rparr> (js ''65a000000000000000000002'') 200)))
       = [[], []]"
proof -
  let ?i = "js ''65a000000000000000000002''"
  let ?c = "js ''hi @bob''"
  let ?d = "\<lparr>sd_content = Some ?c, sd_messageType = None, sd_attachments = None,
             sd_replyTo = None\<rparr>"
  let ?ub = "\<lparr>ub_id = u_id ann, ub_name = js ''Ann'', ub_avatar = None\<rparr>"
  define doc where "doc = newDocument (messageData (u_id ann) ?d) ?i 200"
  define m where "m = preSave True doc"
  have t: "trim ?c = ?c" by (simp add: trim_def char_defs)
  have cm: "\<not> contentMissing (Some ?c)"
    by (simp add: contentMissing_def t) (simp add: js_def)
  have len: "length ?c \<le> 1000" by (simp add: js_def)
  have vc: "validContent ?c" by (simp add: validContent_def js_def)
  have v: "validData (messageData (u_id ann) ?d)"
    using vc text_is_kind by (simp add: validData_def messageData_def castable_def t)
  have dc: "content doc = ?c" "mentions doc = []"
    by (simp_all add: doc_def newDocument_def messageData_def t)
  have mm: "m = doc"
    by (simp add: m_def preSave_def dc mentions_bob setMentions_def bob_not_oid)
  have md: "m = preSave True (newDocument (messageData (u_id (s_user sock_ann)) ?d) ?i 200)"
    by (simp add: m_def doc_def sock_ann_def)
  have md': "m = preSave True (newDocument (messageData (u_id ann) ?d) ?i 200)"
    by (simp add: m_def doc_def)
  have rn: "replyTo m = None"
    by (simp add: mm doc_def newDocument_def messageData_def)
  have pr: "populateReply (messages demo @ [m]) (replyTo m) = None"
    by (simp add: populateReply_def rn)
  have sa: "s_user sock_ann = ann" by (simp add: sock_ann_def)
  have l: "send_message demo sock_ann ?d ?i 200
             = (demo\<lparr>messages := messages demo @ [m]\<rparr>,
                [\<lparr>e_dest = ToRoom general, e_event = ''new_message'',
                  e_payload = P_message (newPayload m ?ub None)\<rparr>,
                 \<lparr>e_dest = ToSocket (s_id sock_ann), e_event = ''message_sent'',
                  e_payload = P_sent (m_id m)\<rparr>])"
    by (rule send_message_ok [OF _ _ _ _ md pr]) (simp_all add: cm len v sa demo_populate_ann)
  have r: "rest_post_messages demo ann ?d ?i 200
             = (demo\<lparr>messages := messages demo @ [m]\<rparr>,
                \<lparr>status = 201, body = R_message (newPayload m ?ub None)\<rparr>)"
    by (rule rest_post_messages_ok [OF _ _ _ _ md' pr]) (simp_all add: cm len v demo_populate_ann)
  have ms: "messages demo = [hello]" by (simp add: demo_def)
  have hh: "content hello = js ''hello''" "mentions hello = []" by (simp_all add: hello_def)
  show ?thesis
    unfolding l r using mentions_bob by (simp add: ms hh mm dc)
qed

section \<open>Private messages\<close>

text \<open>
  Claim C3 at the input where the code departs from it. Bob is connected and registered;
  Ann sends him the private message "psst". The handler builds the document with kind
  "private", which is not among the kinds the schema allows, so the save throws: nothing
  is persisted, nothing is delivered to Bob's connection, and Ann receives the error
  "Failed to send private message" in place of the confirmation.
\<close>

theorem private_message_not_persisted:
  "js ''private'' \<notin> set messageType_enum
   \<and> recipientSocket (fst (onConnection demo sock_bob 150)) (Some (u_id bob)) = Some (s_id sock_bob)
   \<and> \<not> contentMissing (Some (js ''psst''))
   \<and> private_message (fst (onConnection demo sock_bob 150)) sock_ann
        (Some (u_id bob)) (Some (js ''psst'')) (js ''65a000000000000000000002'') 200
       = (fst (onConnection demo sock_bob 150), [err sock_ann ''Failed to send private message''])"
proof -
  have t: "trim (js ''psst'') = js ''psst''" by (simp add: trim_def char_defs)
  have cm: "\<not> contentMissing (Some (js ''psst''))"
    by (simp add: contentMissing_def t) (simp add: js_def)
  have rs: "recipientSocket (fst (onConnection demo sock_bob 150)) (Some (u_id bob))
              = Some (s_id sock_bob)"
    by (simp add: recipientSocket_def onConnection_def Let_def demo_def sock_bob_def js_def)
  show ?thesis
    using private_not_kind cm rs by (simp add: private_message_fails)
qed

lemma thread_find_hello: "Message_findById (messages thread) (Some (m_id hello)) = Inr (Some hello)"
  by (simp add: Message_findById_def hello_id thread_def)

lemma thread_deleted:
  "fst (delete_message thread sock_ann (Some (m_id hello)) 200)
     = thread\<lparr>messages := [hello\<lparr>isDeleted := True, deletedAt := Some 200, updatedAt := 200\<rparr>, reply]\<rparr>"
proof -
  let ?m1 = "hello\<lparr>isDeleted := True, deletedAt := Some 200, updatedAt := 200\<rparr>"
  have a: "\<not> forbidden hello (s_user sock_ann)"
    by (simp add: forbidden_def hello_def sock_ann_def)
  have ne: "m_id reply \<noteq> m_id hello"
    by (simp add: reply_def hello_def js_def)
  have st: "store ?m1 (messages thread) = [?m1, reply]"
    using ne by (simp add: store_def thread_def)
  show ?thesis
    unfolding delete_message_ok [OF thread_find_hello a] st by simp
qed

lemma thread_listed:
  "getMessages newestFirst (users thread)
     [hello\<lparr>isDeleted := True, deletedAt := Some 200, updatedAt := 200\<rparr>, reply] 1 50
     = Inr [\<lparr>l_msg = reply,
             l_user = Some \<lparr>ub_id = u_id bob, ub_name = js ''Bob'', ub_avatar = None\<rparr>,
             l_replyTo = Some \<lparr>rb_id = m_id hello, rb_content = js ''hello'',
                                rb_user = u_id ann, rb_createdAt = None\<rparr>,
             l_mentions = []\<rparr>]"
proof -
  let ?m1 = "hello\<lparr>isDeleted := True, deletedAt := Some 200, updatedAt := 200\<rparr>"
  have nd: "\<not> isDeleted reply" by (simp add: reply_def)
  have ub: "populateUser (users thread) (m_user reply)
              = Some \<lparr>ub_id = u_id bob, ub_name = js ''Bob'', ub_avatar = None\<rparr>"
    by (simp add: populateUser_def thread_def reply_def) (simp add: ann_def bob_def js_def)
  have rb: "populateReply [?m1, reply] (replyTo reply)
              = Some \<lparr>rb_id = m_id hello, rb_content = js ''hello'', rb_user = u_id ann,
                      rb_createdAt = None\<rparr>"
    by (simp add: populateReply_def reply_def) (simp add: hello_def)
  have mn: "populateMentions (users thread) (mentions reply) = []"
    by (simp add: populateMentions_def reply_def)
  show ?thesis
    by (simp add: getMessages_def nd newestFirst_def skipLimit_def hydrate_def ub rb mn)
qed

section \<open>Soft delete\<close>

text \<open>
  Claim C5, as the code has it. Let \<open>m\<close> be a stored message and let its owner or an
  admin soft-delete it at time \<open>t1\<close>, over either channel. The soft-deleted flag is set
  and the deleted-timestamp is \<open>t1\<close>; the message stays retrievable by its identifier
  and no message is erased. The message is no item of any page of List and no item of
  any Search result. List still hydrates the reply-target of each item without looking
  at the soft-deleted flag: an item that replies to \<open>m\<close> carries the identifier, content
  and owner of \<open>m\<close>. Search hydrates no reply-target. A second delete of the same
  message at time \<open>t2\<close> leaves the flag set and writes the deleted-timestamp again: it
  becomes \<open>t2\<close>.
\<close>

theorem soft_delete_hides_and_restamps:
  assumes "Message_findById (messages st) (Some messageId) = Inr (Some m)"
    and "\<not> forbidden m (s_user sock)"
  shows "(let st1 = fst (delete_message st sock (Some messageId) t1);
              st2 = fst (delete_message st1 sock (Some messageId) t2)
          in fst (rest_delete_message st (s_user sock) messageId t1) = st1
           \<and> Message_findById (messages st1) (Some messageId)
               = Inr (Some (m\<lparr>isDeleted := True, deletedAt := Some t1, updatedAt := t1\<rparr>))
           \<and> Message_findById (messages st2) (Some messageId)
               = Inr (Some (m\<lparr>isDeleted := True, deletedAt := Some t2, updatedAt := t2\<rparr>))
           \<and> map m_id (messages st1) = map m_id (messages st)
           \<and> (\<forall>srt p l ys.
                 descending (filter (\<lambda>x. isDeleted x = False) (messages st1))
                   (srt (filter (\<lambda>x. isDeleted x = False) (messages st1)))
                 \<longrightarrow> getMessages srt (users st1) (messages st1) p l = Inr ys
                 \<longrightarrow> (\<forall>y \<in> set ys.
                        m_id (l_msg y) \<noteq> m_id m
                      \<and> (replyTo (l_msg y) = Some (m_id m)
                           \<longrightarrow> l_replyTo y
                                 = Some \<lparr>rb_id = m_id m, rb_content = content m,
                                         rb_user = m_user m, rb_createdAt = None\<rparr>)))
           \<and> (\<forall>rx srt q uid ys.
                 (\<forall>xs. descending xs (srt xs))
                 \<longrightarrow> searchMessages rx srt (users st1) (messages st1) q uid = Inr ys
                 \<longrightarrow> (\<forall>y \<in> set ys. m_id (l_msg y) \<noteq> m_id m \<and> l_replyTo y = None)))"
proof -
  define m1 where "m1 = m\<lparr>isDeleted := True, deletedAt := Some t1, updatedAt := t1\<rparr>"
  define m2 where "m2 = m\<lparr>isDeleted := True, deletedAt := Some t2, updatedAt := t2\<rparr>"
  define st1 where "st1 = st\<lparr>messages := store m1 (messages st)\<rparr>"
  define st2 where "st2 = st1\<lparr>messages := store m2 (messages st1)\<rparr>"
  have ms1: "messages st1 = store m1 (messages st)" by (simp add: st1_def)
  have s1: "fst (delete_message st sock (Some messageId) t1) = st1"
    by (simp add: delete_message_ok [OF assms] st1_def m1_def)
  have r1: "fst (rest_delete_message st (s_user sock) messageId t1) = st1"
    by (simp add: rest_delete_message_ok [OF assms] st1_def m1_def)
  have f1: "Message_findById (messages st1) (Some messageId) = Inr (Some m1)"
    unfolding ms1 by (rule findById_store [OF assms(1)]) (simp add: m1_def)
  have fb: "\<not> forbidden m1 (s_user sock)"
    using assms(2) by (simp add: forbidden_def m1_def)
  have m12: "m1\<lparr>isDeleted := True, deletedAt := Some t2, updatedAt := t2\<rparr> = m2"
    by (simp add: m1_def m2_def)
  have s2: "fst (delete_message st1 sock (Some messageId) t2) = st2"
    by (simp add: delete_message_ok [OF f1 fb] st2_def m12)
  have f2: "Message_findById (messages st2) (Some messageId) = Inr (Some m2)"
  proof -
    have "Message_findById (store m2 (messages st1)) (Some messageId) = Inr (Some m2)"
      by (rule findById_store [OF f1]) (simp add: m1_def m2_def)
    then show ?thesis by (simp add: st2_def)
  qed
  have ids: "map m_id (messages st1) = map m_id (messages st)"
    by (simp add: ms1 map_id_store)
  have d1: "isDeleted m1" and i1: "m_id m1 = m_id m" by (simp_all add: m1_def)
  from findById_cast [OF f1] have fm: "find (\<lambda>x. m_id x = m_id m) (messages st1) = Some m1"
    using i1 by auto
  have l: "\<forall>srt p l ys.
             descending (filter (\<lambda>x. isDeleted x = False) (messages st1))
               (srt (filter (\<lambda>x. isDeleted x = False) (messages st1)))
             \<longrightarrow> getMessages srt (users st1) (messages st1) p l = Inr ys
             \<longrightarrow> (\<forall>y \<in> set ys.
                    m_id (l_msg y) \<noteq> m_id m
                  \<and> (replyTo (l_msg y) = Some (m_id m)
                       \<longrightarrow> l_replyTo y
                             = Some \<lparr>rb_id = m_id m, rb_content = content m,
                                     rb_user = m_user m, rb_createdAt = None\<rparr>))"
  proof (intro allI impI ballI conjI)
    fix srt p l ys y
    assume d: "descending (filter (\<lambda>x. isDeleted x = False) (messages st1))
                 (srt (filter (\<lambda>x. isDeleted x = False) (messages st1)))"
      and g: "getMessages srt (users st1) (messages st1) p l = Inr ys" and y: "y \<in> set ys"
    show "m_id (l_msg y) \<noteq> m_id m"
      using getMessages_hides [OF d1 d [unfolded ms1] g [unfolded ms1] y] i1 by simp
    assume r: "replyTo (l_msg y) = Some (m_id m)"
    from getMessages_live [OF d g y] have "y = hydrate (users st1) (messages st1) (l_msg y)"
      by simp
    then have "l_replyTo y = l_replyTo (hydrate (users st1) (messages st1) (l_msg y))"
      by simp
    also have "\<dots> = Some \<lparr>rb_id = m_id m1, rb_content = content m1, rb_user = m_user m1,
                           rb_createdAt = None\<rparr>"
      by (rule hydrate_reply [OF fm r])
    finally show "l_replyTo y = Some \<lparr>rb_id = m_id m, rb_content = content m,
                                     rb_user = m_user m, rb_createdAt = None\<rparr>"
      by (simp add: m1_def)
  qed
  have s: "\<forall>rx srt q uid ys.
             (\<forall>xs. descending xs (srt xs))
             \<longrightarrow> searchMessages rx srt (users st1) (messages st1) q uid = Inr ys
             \<longrightarrow> (\<forall>y \<in> set ys. m_id (l_msg y) \<noteq> m_id m \<and> l_replyTo y = None)"
  proof (intro allI impI ballI conjI)
    fix rx srt q uid ys y
    assume d: "\<forall>xs. descending xs (srt xs)"
      and g: "searchMessages rx srt (users st1) (messages st1) q uid = Inr ys" and y: "y \<in> set ys"
    from d have d': "\<And>xs. descending xs (srt xs)" by simp
    show "m_id (l_msg y) \<noteq> m_id m"
      using searchMessages_hides [OF d1 d' g [unfolded ms1] y] i1 by simp
    show "l_replyTo y = None"
      using searchMessages_live [OF d' g y] by simp
  qed
  note f1' = f1 [unfolded m1_def] and f2' = f2 [unfolded m2_def]
  show ?thesis
    unfolding Let_def s1 s2 r1 by (intro conjI refl f1' f2' ids l s)
qed

theorem soft_delete_hides_and_restamps_witness:
  "Message_findById (messages thread) (Some (m_id hello)) = Inr (Some hello)
   \<and> \<not> forbidden hello (s_user sock_ann)
   \<and> (let st1 = fst (delete_message thread sock_ann (Some (m_id hello)) 200);
            st2 = fst (delete_message st1 sock_ann (Some (m_id hello)) 300)
        in Message_findById (messages st1) (Some (m_id hello))
             = Inr (Some (hello\<lparr>isDeleted := True, deletedAt := Some 200, updatedAt := 200\<rparr>))
         \<and> Message_findById (messages st2) (Some (m_id hello))
             = Inr (Some (hello\<lparr>isDeleted := True, deletedAt := Some 300, updatedAt := 300\<rparr>))
         \<and> map m_id (messages st1) = map m_id (messages thread)
         \<and> getMessages newestFirst (users st1) (messages st1) 1 50
             = Inr [\<lparr>l_msg = reply,
                     l_user = Some \<lparr>ub_id = u_id bob, ub_name = js ''Bob'', ub_avatar = None\<rparr>,
                     l_replyTo = Some \<lparr>rb_id = m_id hello, rb_content = js ''hello'',
                                        rb_user = u_id ann, rb_createdAt = None\<rparr>,
                     l_mentions = []\<rparr>])"
proof -
  have a: "\<not> forbidden hello (s_user sock_ann)"
    by (simp add: forbidden_def hello_def sock_ann_def)
  show ?thesis
    using soft_delete_hides_and_restamps [OF thread_find_hello a, of 200 300]
      thread_find_hello a thread_listed
    by (simp add: Let_def thread_deleted)
qed

text \<open>
  The claim as it is written fails where it says that the timestamp is set exactly once:
  Ann deletes her message at time 200 and again at time 300, and the second delete
  changes the deleted-timestamp from 200 to 300. It also fails for the results of List
  taken whole: after Ann has deleted her message, the page that lists Bob's reply to it
  still carries the identifier, content and owner of the deleted message as the
  hydrated reply-target.
\<close>

theorem soft_delete_twice_counterexample:
  "(let st1 = fst (delete_message demo sock_ann (Some (m_id hello)) 200);
        st2 = fst (delete_message st1 sock_ann (Some (m_id hello)) 300)
    in map deletedAt (messages demo) = [None]
     \<and> map deletedAt (messages st1) = [Some 200]
     \<and> map deletedAt (messages st2) = [Some 300]
     \<and> map deletedAt (messages st2) \<noteq> map deletedAt (messages st1))
   \<and> map (\<lambda>y. map_option rb_content (l_replyTo y))
        (pageOfListed (getMessages newestFirst (users thread)
           (messages (fst (delete_message thread sock_ann (Some (m_id hello)) 200))) 1 50))
       = [Some (content hello)]"
proof -
  let ?m1 = "hello\<lparr>isDeleted := True, deletedAt := Some 200, updatedAt := 200\<rparr>"
  let ?m2 = "hello\<lparr>isDeleted := True, deletedAt := Some 300, updatedAt := 300\<rparr>"
  have a0: "\<not> forbidden hello (s_user sock_ann)"
    by (simp add: forbidden_def hello_def sock_ann_def)
  have a1: "\<not> forbidden ?m1 (s_user sock_ann)"
    by (simp add: forbidden_def hello_def sock_ann_def)
  have st: "store ?m1 (messages demo) = [?m1]" "store ?m2 [?m1] = [?m2]"
    by (simp_all add: store_def demo_def)
  have s1: "fst (delete_message demo sock_ann (Some (m_id hello)) 200)
              = demo\<lparr>messages := [?m1]\<rparr>"
    unfolding delete_message_ok [OF demo_find_hello a0] st by simp
  have f1: "Message_findById (messages (demo\<lparr>messages := [?m1]\<rparr>)) (Some (m_id hello))
              = Inr (Some ?m1)"
    by (simp add: Message_findById_def hello_id)
  have s2: "fst (delete_message (demo\<lparr>messages := [?m1]\<rparr>) sock_ann (Some (m_id hello)) 300)
              = demo\<lparr>messages := [?m2]\<rparr>"
    unfolding delete_message_ok [OF f1 a1] using st by simp
  have d0: "map deletedAt (messages demo) = [None]"
    by (simp add: demo_def hello_def)
  have ch: "content hello = js ''hello''" by (simp add: hello_def)
  have pg: "map (\<lambda>y. map_option rb_content (l_replyTo y))
              (pageOfListed (getMessages newestFirst (users thread)
                 (messages (fst (delete_message thread sock_ann (Some (m_id hello)) 200))) 1 50))
              = [Some (content hello)]"
    by (simp add: thread_deleted thread_listed pageOfListed_def ch)
  show ?thesis
    unfolding Let_def s1 s2 using d0 pg by simp
qed

lemma find_snoc:
  "find P (xs @ [y]) = (case find P xs of None \<Rightarrow> (if P y then Some y else None) | Some x \<Rightarrow> Some x)"
  by (induction xs) auto

lemma dangling:
  assumes "Message_findById ms (Some r) = Inr None" and "castObjectId r \<noteq> Some (m_id m)"
  shows "populateReply (ms @ [m]) (castObjectId r) = None"
  using assms
  by (auto simp: Message_findById_def populateReply_def find_snoc split: option.splits)

section \<open>Reply targets\<close>

text \<open>
  Claim C7, as the code has it. Take a Send, on either channel, whose content passes the
  content checks, whose kind and attachments are valid, whose sender can be hydrated, and
  which supplies a non-empty reply-target. No handler looks the reply-target up before
  the save. If the reply-target is a well-formed identifier (24 hexadecimal digits) the
  message is persisted with that reference, whether or not the reference belongs to an
  existing message. What the sender is told then depends on the reference the other way
  round: when it belongs to no message of the store the Send succeeds, the room receives
  the message with an empty reply-target and the sender the confirmation (REST: 201);
  when it belongs to a message of the store (or is the identifier of the new message
  itself) the hydrated reply-target cannot be serialised and the Send is reported as
  failed (REST: 500), the message staying persisted. If the reply-target is not a
  well-formed identifier the save throws, the Send fails and nothing is persisted.
\<close>

theorem reply_target_stored_unchecked:
  assumes "sd_content d = Some s" and "trim s \<noteq> []" and "length s \<le> 1000"
    and "case sd_messageType d of None \<Rightarrow> True | Some t \<Rightarrow> t \<in> set messageType_enum"
    and "list_all validAttachment (case sd_attachments d of None \<Rightarrow> [] | Some a \<Rightarrow> a)"
    and "sd_replyTo d = Some r" and "r \<noteq> []"
    and "populateUser (users st) (u_id (s_user sock)) = Some ub"
  shows "(if isObjectIdString r then
            (\<exists>m. m_id m = i \<and> content m = trim s \<and> replyTo m = castObjectId r
                \<and> isDeleted m = False
                \<and> fst (send_message st sock d i now) = st\<lparr>messages := messages st @ [m]\<rparr>
                \<and> fst (rest_post_messages st (s_user sock) d i now)
                    = st\<lparr>messages := messages st @ [m]\<rparr>
                \<and> (Message_findById (messages st) (Some r) = Inr None
                     \<and> castObjectId r \<noteq> Some i
                   \<longrightarrow> snd (send_message st sock d i now)
                         = [\<lparr>e_dest = ToRoom general, e_event = ''new_message'',
                             e_payload = P_message (newPayload m ub None)\<rparr>,
                            \<lparr>e_dest = ToSocket (s_id sock), e_event = ''message_sent'',
                             e_payload = P_sent i\<rparr>]
                     \<and> snd (rest_post_messages st (s_user sock) d i now)
                         = \<lparr>status = 201, body = R_message (newPayload m ub None)\<rparr>)
                \<and> (Message_findById (messages st) (Some r) \<noteq> Inr None
                     \<or> castObjectId r = Some i
                   \<longrightarrow> snd (send_message st sock d i now) = [err sock ''Failed to send message'']
                     \<and> snd (rest_post_messages st (s_user sock) d i now)
                         = fail 500 ''Server error'' ''Failed to send message''))
          else send_message st sock d i now = (st, [err sock ''Failed to send message''])
             \<and> rest_post_messages st (s_user sock) d i now
                 = (st, fail 500 ''Server error'' ''Failed to send message''))"
proof -
  have tn: "s \<noteq> []" using assms(2) by (auto simp: trim_Nil)
  have cm: "\<not> contentMissing (sd_content d)"
    using assms(1,2) tn by (simp add: contentMissing_def)
  have len: "length (the (sd_content d)) \<le> 1000" using assms(1,3) by simp
  let ?uid = "u_id (s_user sock)"
  have vd: "validData (messageData ?uid d) = isObjectIdString r"
    using assms validContent_trimmed [OF assms(2,3)] text_is_kind
    by (auto simp: validData_def messageData_def castable_def split: option.splits)
  show ?thesis
  proof (cases "isObjectIdString r")
    case True
    define m where "m = preSave True (newDocument (messageData ?uid d) i now)"
    have v: "validData (messageData ?uid d)" using vd True by simp
    have f: "m_id m = i" "content m = trim s" "replyTo m = castObjectId r" "isDeleted m = False"
      using assms(1,6,7)
      by (simp_all add: m_def preSave_fields newDocument_def messageData_def trim_idem)
    have l: "fst (send_message st sock d i now) = st\<lparr>messages := messages st @ [m]\<rparr>"
      by (rule send_message_stored [OF cm len v m_def])
    have r: "fst (rest_post_messages st (s_user sock) d i now)
               = st\<lparr>messages := messages st @ [m]\<rparr>"
      by (rule rest_post_messages_stored [OF cm len v m_def])
    have ok: "snd (send_message st sock d i now)
                = [\<lparr>e_dest = ToRoom general, e_event = ''new_message'',
                    e_payload = P_message (newPayload m ub None)\<rparr>,
                   \<lparr>e_dest = ToSocket (s_id sock), e_event = ''message_sent'',
                    e_payload = P_sent i\<rparr>]
             \<and> snd (rest_post_messages st (s_user sock) d i now)
                = \<lparr>status = 201, body = R_message (newPayload m ub None)\<rparr>"
      if n: "Message_findById (messages st) (Some r) = Inr None" and c: "castObjectId r \<noteq> Some i"
    proof -
      have pr: "populateReply (messages st @ [m]) (replyTo m) = None"
        unfolding f(3) by (rule dangling [OF n]) (simp add: f(1) c)
      show ?thesis
        using send_message_ok [OF cm len v assms(8) m_def pr]
          rest_post_messages_ok [OF cm len v assms(8) m_def pr] f(1)
        by simp
    qed
    have bad: "snd (send_message st sock d i now) = [err sock ''Failed to send message'']
             \<and> snd (rest_post_messages st (s_user sock) d i now)
                = fail 500 ''Server error'' ''Failed to send message''"
      if e: "Message_findById (messages st) (Some r) \<noteq> Inr None \<or> castObjectId r = Some i"
    proof -
      from True obtain k where k: "castObjectId r = Some k" by (simp add: castObjectId_def)
      from e k f(1) have "find (\<lambda>x. m_id x = k) (messages st @ [m]) \<noteq> None"
        by (auto simp: Message_findById_def find_snoc split: option.splits)
      then obtain rb where pr: "populateReply (messages st @ [m]) (replyTo m) = Some rb"
        unfolding f(3) k by (auto simp: populateReply_def)
      show ?thesis
        using reply_to_existing_reported_failed [OF cm len v assms(8) m_def pr] by simp
    qed
    from True f l r ok bad show ?thesis by auto
  next
    case False
    then have "Message_create (messages st) (messageData ?uid d) i now = Inl ()"
      using vd by (simp add: Message_create_def)
    with False cm len show ?thesis
      by (simp add: send_message_def rest_post_messages_def)
  qed
qed

theorem reply_target_stored_unchecked_witness:
  "trim (js ''re'') \<noteq> []
   \<and> length (js ''re'') \<le> 1000
   \<and> js ''65a0000000000000000000ff'' \<noteq> []
   \<and> isObjectIdString (js ''65a0000000000000000000ff'')
   \<and> Message_findById (messages demo) (Some (js ''65a0000000000000000000ff'')) = Inr None
   \<and> castObjectId (js ''65a0000000000000000000ff'') \<noteq> Some (js ''65a000000000000000000002'')
   \<and> populateUser (users demo) (u_id (s_user sock_ann))
        = Some \<lparr>ub_id = u_id ann, ub_name = js ''Ann'', ub_avatar = None\<rparr>
   \<and> (\<exists>m. m_id m = js ''65a000000000000000000002''
          \<and> replyTo m = Some (js ''65a0000000000000000000ff'')
          \<and> send_message demo sock_ann
                \<lparr>sd_content = Some (js ''re''), sd_messageType = None, sd_attachments = None,
                 sd_replyTo = Some (js ''65a0000000000000000000ff'')\<rparr>
                (js ''65a000000000000000000002'') 200
               = (demo\<lparr>messages := messages demo @ [m]\<rparr>,
                  [\<lparr>e_dest = ToRoom general, e_event = ''new_message'',
                    e_payload = P_message
                      (newPayload m \<lparr>ub_id = u_id ann, ub_name = js ''Ann'', ub_avatar = None\<rparr>
                         None)\<rparr>,
                   \<lparr>e_dest = ToSocket (s_id sock_ann), e_event = ''message_sent'',
                    e_payload = P_sent (js ''65a000000000000000000002'')\<rparr>]))
   \<and> isObjectIdString (m_id hello)
   \<and> Message_findById (messages demo) (Some (m_id hello)) = Inr (Some hello)
   \<and> (\<exists>m. m_id m = js ''65a000000000000000000002''
          \<and> replyTo m = Some (m_id hello)
          \<and> send_message demo sock_ann
                \<lparr>sd_content = Some (js ''re''), sd_messageType = None, sd_attachments = None,
                 sd_replyTo = Some (m_id hello)\<rparr>
                (js ''65a000000000000000000002'') 200
               = (demo\<lparr>messages := messages demo @ [m]\<rparr>,
                  [err sock_ann ''Failed to send message'']))"
proof -
  let ?r = "js ''65a0000000000000000000ff''"
  let ?i = "js ''65a000000000000000000002''"
  let ?d = "\<lparr>sd_content = Some (js ''re''), sd_messageType = None, sd_attachments = None,
             sd_replyTo = Some ?r\<rparr>"
  let ?e = "\<lparr>sd_content = Some (js ''re''), sd_messageType = None, sd_attachments = None,
             sd_replyTo = Some (m_id hello)\<rparr>"
  let ?ub = "\<lparr>ub_id = u_id ann, ub_name = js ''Ann'', ub_avatar = None\<rparr>"
  have h2: "trim (js ''re'') \<noteq> []" by (simp add: trim_def char_defs)
  have h3: "length (js ''re'') \<le> 1000" by (simp add: js_def)
  have h7: "?r \<noteq> []" by (simp add: js_def)
  have h8: "populateUser (users demo) (u_id (s_user sock_ann)) = Some ?ub"
    using demo_populate_ann by (simp add: sock_ann_def)
  have o: "isObjectIdString ?r" by (simp add: isObjectIdString_def char_defs)
  have c: "castObjectId ?r = Some ?r"
    by (simp add: castObjectId_def isObjectIdString_def char_defs)
  have ci: "castObjectId ?r \<noteq> Some ?i" unfolding c by (simp add: js_def)
  have n: "Message_findById (messages demo) (Some ?r) = Inr None"
    by (simp add: Message_findById_def c demo_def) (simp add: hello_def js_def)
  have oh: "isObjectIdString (m_id hello)"
    using hello_id by (simp add: castObjectId_def split: if_splits)
  have hn: "m_id hello \<noteq> []" by (simp add: hello_def js_def)
  from reply_target_stored_unchecked
         [where d = ?d and s = "js ''re''" and r = ?r and st = demo and sock = sock_ann
            and ub = ?ub and i = ?i and now = 200] h2 h3 h7 h8 o c ci n
  obtain m where m: "m_id m = ?i" "replyTo m = Some ?r"
    "fst (send_message demo sock_ann ?d ?i 200) = demo\<lparr>messages := messages demo @ [m]\<rparr>"
    "snd (send_message demo sock_ann ?d ?i 200)
       = [\<lparr>e_dest = ToRoom general, e_event = ''new_message'',
           e_payload = P_message (newPayload m ?ub None)\<rparr>,
          \<lparr>e_dest = ToSocket (s_id sock_ann), e_event = ''message_sent'',
           e_payload = P_sent ?i\<rparr>]"
    by auto
  from m(3,4) have "send_message demo sock_ann ?d ?i 200
      = (demo\<lparr>messages := messages demo @ [m]\<rparr>,
         [\<lparr>e_dest = ToRoom general, e_event = ''new_message'',
           e_payload = P_message (newPayload m ?ub None)\<rparr>,
          \<lparr>e_dest = ToSocket (s_id sock_ann), e_event = ''message_sent'',
           e_payload = P_sent ?i\<rparr>])"
    by (simp add: prod_eq_iff)
  with m(1,2) have A: "\<exists>m. m_id m = ?i \<and> replyTo m = Some ?r
      \<and> send_message demo sock_ann ?d ?i 200
          = (demo\<lparr>messages := messages demo @ [m]\<rparr>,
             [\<lparr>e_dest = ToRoom general, e_event = ''new_message'',
               e_payload = P_message (newPayload m ?ub None)\<rparr>,
              \<lparr>e_dest = ToSocket (s_id sock_ann), e_event = ''message_sent'',
               e_payload = P_sent ?i\<rparr>])"
    by blast
  from reply_target_stored_unchecked
         [where d = ?e and s = "js ''re''" and r = "m_id hello" and st = demo and sock = sock_ann
            and ub = ?ub and i = ?i and now = 200] h2 h3 hn h8 oh hello_id
    demo_find_hello
  obtain m' where m': "m_id m' = ?i" "replyTo m' = Some (m_id hello)"
    "fst (send_message demo sock_ann ?e ?i 200) = demo\<lparr>messages := messages demo @ [m']\<rparr>"
    "snd (send_message demo sock_ann ?e ?i 200) = [err sock_ann ''Failed to send message'']"
    by auto
  from m'(3,4) have "send_message demo sock_ann ?e ?i 200
      = (demo\<lparr>messages := messages demo @ [m']\<rparr>, [err sock_ann ''Failed to send message''])"
    by (simp add: prod_eq_iff)
  with m'(1,2) have B: "\<exists>m. m_id m = ?i \<and> replyTo m = Some (m_id hello)
      \<and> send_message demo sock_ann ?e ?i 200
          = (demo\<lparr>messages := messages demo @ [m]\<rparr>, [err sock_ann ''Failed to send message''])"
    by blast
  from h2 h3 h7 o n ci h8 A oh demo_find_hello B show ?thesis by (intro conjI)
qed

text \<open>
  The claim as it is written fails: no message of the store has the identifier that Ann
  gives as reply-target, and her Send succeeds on both channels and persists the new
  message with the dangling reference.
\<close>

theorem dangling_reply_counterexample:
  "Message_findById (messages demo) (Some (js ''65a0000000000000000000ff'')) = Inr None
   \<and> map m_id (messages (fst (send_message demo sock_ann
        \<lparr>sd_content = Some (js ''re''), sd_messageType = None, sd_attachments = None,
         sd_replyTo = Some (js ''65a0000000000000000000ff'')\<rparr>
        (js ''65a000000000000000000002'') 200)))
       = [m_id hello, js ''65a000000000000000000002'']
   \<and> map replyTo (messages (fst (send_message demo sock_ann
        \<lparr>sd_content = Some (js ''re''), sd_messageType = None, sd_attachments = None,
         sd_replyTo = Some (js ''65a0000000000000000000ff'')\<rparr>
        (js ''65a000000000000000000002'') 200)))
       = [None, Some (js ''65a0000000000000000000ff'')]
   \<and> map e_event (snd (send_message demo sock_ann
        \<lparr>sd_content = Some (js ''re''), sd_messageType = None, sd_attachments = None,
         sd_replyTo = Some (js ''65a0000000000000000000ff'')\<rparr>
        (js ''65a000000000000000000002'') 200))
       = [''new_message'', ''message_sent'']
   \<and> status (snd (rest_post_messages demo ann
        \<lparr>sd_content = Some (js ''re''), sd_messageType = None, sd_attachments = None,
         sd_replyTo = Some (js ''65a0000000000000000000ff'')\<rparr>
        (js ''65a000000000000000000002'') 200)) = 201"
proof -
  let ?r = "js ''65a0000000000000000000ff''"
  let ?i = "js ''65a000000000000000000002''"
  let ?d = "\<lparr>sd_content = Some (js ''re''), sd_messageType = None, sd_attachments = None,
             sd_replyTo = Some ?r\<rparr>"
  let ?ub = "\<lparr>ub_id = u_id ann, ub_name = js ''Ann'', ub_avatar = None\<rparr>"
  define m where "m = preSave True (newDocument (messageData (u_id ann) ?d) ?i 200)"
  have md: "m = preSave True (newDocument (messageData (u_id (s_user sock_ann)) ?d) ?i 200)"
    by (simp add: m_def sock_ann_def)
  have t: "trim (js ''re'') = js ''re''" by (simp add: trim_def char_defs)
  have cm: "\<not> contentMissing (Some (js ''re''))"
    by (simp add: contentMissing_def t) (simp add: js_def)
  have len: "length (js ''re'') \<le> 1000" by (simp add: js_def)
  have o: "isObjectIdString ?r" by (simp add: isObjectIdString_def char_defs)
  have c: "castObjectId ?r = Some ?r"
    by (simp add: castObjectId_def isObjectIdString_def char_defs)
  have rn: "?r \<noteq> []" by (simp add: js_def)
  have vc: "validContent (js ''re'')" by (simp add: validContent_def js_def)
  have v: "validData (messageData (u_id ann) ?d)"
    using rn o vc text_is_kind by (simp add: validData_def messageData_def castable_def t)
  have n: "Message_findById (messages demo) (Some ?r) = Inr None"
    by (simp add: Message_findById_def c demo_def) (simp add: hello_def js_def)
  have f: "m_id m = ?i" "replyTo m = Some ?r"
    using rn c by (simp_all add: m_def preSave_fields newDocument_def messageData_def)
  have pr: "populateReply (messages demo @ [m]) (replyTo m) = None"
  proof -
    have ne: "castObjectId ?r \<noteq> Some (m_id m)" unfolding c f(1) by (simp add: js_def)
    show ?thesis unfolding f(2) c [symmetric] by (rule dangling [OF n ne])
  qed
  have sa: "s_user sock_ann = ann" by (simp add: sock_ann_def)
  have l: "send_message demo sock_ann ?d ?i 200
             = (demo\<lparr>messages := messages demo @ [m]\<rparr>,
                [\<lparr>e_dest = ToRoom general, e_event = ''new_message'',
                  e_payload = P_message (newPayload m ?ub None)\<rparr>,
                 \<lparr>e_dest = ToSocket (s_id sock_ann), e_event = ''message_sent'',
                  e_payload = P_sent (m_id m)\<rparr>])"
    by (rule send_message_ok [OF _ _ _ _ md pr]) (simp_all add: cm len v sa demo_populate_ann)
  have r: "rest_post_messages demo ann ?d ?i 200
             = (demo\<lparr>messages := messages demo @ [m]\<rparr>,
                \<lparr>status = 201, body = R_message (newPayload m ?ub None)\<rparr>)"
    by (rule rest_post_messages_ok [OF _ _ _ _ m_def pr]) (simp_all add: cm len v demo_populate_ann)
  have ms: "messages demo = [hello]" by (simp add: demo_def)
  have hr: "replyTo hello = None" by (simp add: hello_def)
  show ?thesis
    unfolding l r using n f by (simp add: ms hr)
qed
















section \<open>Listing\<close>




end
